theory Spec2Isabelle
  imports Main
begin

section \<open>JavaScript values and promises\<close>

text \<open>
  An awaited promise either resolves with a value or rejects; a rejection that no
  \<^verbatim>\<open>catch\<close> handles propagates to the caller. \<open>Thrown\<close> carries the error's message.
\<close>

datatype 'a outcome = Returned 'a | Thrown string

text \<open>
  \<^verbatim>\<open>String.prototype.toLowerCase\<close> on the ASCII letters (token addresses, identifiers).
\<close>

fun lower_char :: "char \<Rightarrow> char" where
  "lower_char (Char b0 b1 b2 b3 b4 b5 b6 b7) =
     (let n = (of_char (Char b0 b1 b2 b3 b4 b5 b6 b7) :: nat) in
      if 65 \<le> n \<and> n \<le> 90 then Char b0 b1 b2 b3 b4 True b6 b7
      else Char b0 b1 b2 b3 b4 b5 b6 b7)"

definition toLowerCase :: "string \<Rightarrow> string" where
  "toLowerCase s = map lower_char s"

text \<open>
  A JavaScript number that may be \<^verbatim>\<open>null\<close>: the relational operators coerce
  \<^verbatim>\<open>null\<close> to \<open>0\<close>, strict equality does not.
\<close>

definition js_num :: "int option \<Rightarrow> int" where
  "js_num v = (case v of None \<Rightarrow> 0 | Some n \<Rightarrow> n)"

text \<open>
  A JavaScript number is an IEEE 754 double. The counts of this program are integers: a
  double holds every integer up to \<open>2\<^sup>5\<^sup>3\<close> in magnitude and, beyond, the integers of at
  most 53 significant bits. \<^verbatim>\<open>Number(bigint)\<close> and the operators \<^verbatim>\<open>+\<close> and \<^verbatim>\<open>-\<close> on
  integral doubles give the double nearest to the exact integer, the one with the even
  significand of two equally near. A contract read is a uint256, far below
  \<open>2\<^sup>1\<^sup>0\<^sup>2\<^sup>4\<close>, where a double overflows.
\<close>

fun bitlen :: "nat \<Rightarrow> nat" where
  "bitlen n = (if n = 0 then 0 else Suc (bitlen (n div 2)))"

definition nearest_double :: "nat \<Rightarrow> nat" where
  "nearest_double n =
     (if n < 2 ^ 53 then n
      else
        (let ulp = 2 ^ (bitlen n - 53); q = n div ulp; rest = n mod ulp in
         if 2 * rest < ulp \<or> (2 * rest = ulp \<and> even q) then q * ulp else (q + 1) * ulp))"

definition Number :: "int \<Rightarrow> int" where
  "Number i = (if i < 0 then - int (nearest_double (nat (- i))) else int (nearest_double (nat i)))"

definition js_add :: "int \<Rightarrow> int \<Rightarrow> int" where
  "js_add a b = Number (a + b)"

definition js_sub :: "int \<Rightarrow> int \<Rightarrow> int" where
  "js_sub a b = Number (a - b)"

text \<open>Truthiness of an optional string: \<^verbatim>\<open>undefined\<close> and \<^verbatim>\<open>''\<close> are falsy.\<close>

definition truthy :: "string option \<Rightarrow> bool" where
  "truthy v = (case v of None \<Rightarrow> False | Some s \<Rightarrow> s \<noteq> [])"

fun js_includes :: "string \<Rightarrow> string \<Rightarrow> bool" where
  "js_includes [] sub = (sub = [])"
| "js_includes (c # cs) sub = (take (length sub) (c # cs) = sub \<or> js_includes cs sub)"

text \<open>Decimal digits of a natural number: \<^verbatim>\<open>toString()\<close> of a non-negative bigint.\<close>

definition digit :: "nat \<Rightarrow> char" where
  "digit d = ''0123456789'' ! d"

fun decimal :: "nat \<Rightarrow> string" where
  "decimal n = (if n < 10 then [digit n] else decimal (n div 10) @ [digit (n mod 10)])"

section \<open>The Redis store behind the pooled client\<close>

text \<open>
  Redis is an external collaborator. Its keyspace is a map from keys to an integer value
  and an optional remaining time to live in milliseconds. Every command of the legacy
  client goes through \<^verbatim>\<open>pool.execute\<close> (redisConnectionPool.ts, the Proxy of
  \<^verbatim>\<open>RedisConnectionManager.getConnection\<close>): it runs on an acquired connection
  (\<open>Works\<close>), rejects with the command's error (\<open>CmdThrows\<close>), or resolves with
  \<^verbatim>\<open>null\<close> without running when \<^verbatim>\<open>acquire()\<close> resolved with \<^verbatim>\<open>null\<close> (\<open>NoConn\<close>),
  which it does only while the pool is shutting down. The list \<open>faults\<close> schedules what
  happens to the next commands that settle; beyond its end every command works. A
  command whose \<^verbatim>\<open>acquire()\<close> stays pending (an exhausted pool, see
  \<open>execute_until_timeout\<close> below) gives no reply at all and is no part of a schedule.
\<close>

datatype fault = Works | CmdThrows | NoConn

record rentry =
  rval :: int
  rttl :: "int option"

type_synonym keyspace = "string \<Rightarrow> rentry option"

record redis =
  store :: keyspace
  faults :: "fault list"

datatype 'a reply = Threw | Null | Reply 'a

definition pop_fault :: "redis \<Rightarrow> fault \<times> redis" where
  "pop_fault r = (case faults r of [] \<Rightarrow> (Works, r) | f # fs \<Rightarrow> (f, r\<lparr>faults := fs\<rparr>))"

text \<open>\<^verbatim>\<open>pool.execute(fn)\<close>: a rejected command leaves the keyspace as it was.\<close>

definition execute :: "redis \<Rightarrow> (keyspace \<Rightarrow> 'a \<times> keyspace) \<Rightarrow> 'a reply \<times> redis" where
  "execute r fn =
     (case pop_fault r of
        (Works, r1) \<Rightarrow> (case fn (store r1) of (a, s) \<Rightarrow> (Reply a, r1\<lparr>store := s\<rparr>))
      | (CmdThrows, r1) \<Rightarrow> (Threw, r1)
      | (NoConn, r1) \<Rightarrow> (Null, r1))"

definition cmd_incrby :: "string \<Rightarrow> int \<Rightarrow> keyspace \<Rightarrow> int \<times> keyspace" where
  "cmd_incrby k n s =
     (case s k of
        None \<Rightarrow> (n, s(k \<mapsto> \<lparr>rval = n, rttl = None\<rparr>))
      | Some e \<Rightarrow> (rval e + n, s(k \<mapsto> e\<lparr>rval := rval e + n\<rparr>)))"

definition cmd_expire_ms :: "string \<Rightarrow> int \<Rightarrow> keyspace \<Rightarrow> int \<times> keyspace" where
  "cmd_expire_ms k ms s =
     (case s k of
        None \<Rightarrow> (0, s)
      | Some e \<Rightarrow> (1, s(k \<mapsto> e\<lparr>rttl := Some ms\<rparr>)))"

definition cmd_del :: "string \<Rightarrow> keyspace \<Rightarrow> int \<times> keyspace" where
  "cmd_del k s = (case s k of None \<Rightarrow> (0, s) | Some e \<Rightarrow> (1, s(k := None)))"

definition cmd_get :: "string \<Rightarrow> keyspace \<Rightarrow> int option \<times> keyspace" where
  "cmd_get k s = (map_option rval (s k), s)"

definition cmd_exists :: "string \<Rightarrow> keyspace \<Rightarrow> int \<times> keyspace" where
  "cmd_exists k s = (case s k of None \<Rightarrow> (0, s) | Some e \<Rightarrow> (1, s))"

text \<open>\<^verbatim>\<open>TTL\<close> answers in seconds: \<open>-2\<close> for a missing key, \<open>-1\<close> for a key without expiry.\<close>

definition cmd_ttl :: "string \<Rightarrow> keyspace \<Rightarrow> int \<times> keyspace" where
  "cmd_ttl k s =
     (case s k of
        None \<Rightarrow> (- 2, s)
      | Some e \<Rightarrow> (case rttl e of None \<Rightarrow> (- 1, s) | Some ms \<Rightarrow> ((ms + 500) div 1000, s)))"

definition cmd_set :: "string \<Rightarrow> int \<Rightarrow> int option \<Rightarrow> keyspace \<Rightarrow> unit \<times> keyspace" where
  "cmd_set k v px s = ((), s(k \<mapsto> \<lparr>rval = v, rttl = px\<rparr>))"

definition redis_incrby :: "redis \<Rightarrow> string \<Rightarrow> int \<Rightarrow> int reply \<times> redis" where
  "redis_incrby r k n = execute r (cmd_incrby k n)"

definition redis_decrby :: "redis \<Rightarrow> string \<Rightarrow> int \<Rightarrow> int reply \<times> redis" where
  "redis_decrby r k n = execute r (cmd_incrby k (- n))"

definition redis_incr :: "redis \<Rightarrow> string \<Rightarrow> int reply \<times> redis" where
  "redis_incr r k = execute r (cmd_incrby k 1)"

definition redis_expire :: "redis \<Rightarrow> string \<Rightarrow> int \<Rightarrow> int reply \<times> redis" where
  "redis_expire r k secs = execute r (cmd_expire_ms k (secs * 1000))"

definition redis_pexpire :: "redis \<Rightarrow> string \<Rightarrow> int \<Rightarrow> int reply \<times> redis" where
  "redis_pexpire r k ms = execute r (cmd_expire_ms k ms)"

definition redis_del :: "redis \<Rightarrow> string \<Rightarrow> int reply \<times> redis" where
  "redis_del r k = execute r (cmd_del k)"

definition redis_get :: "redis \<Rightarrow> string \<Rightarrow> int option reply \<times> redis" where
  "redis_get r k = execute r (cmd_get k)"

definition redis_exists :: "redis \<Rightarrow> string \<Rightarrow> int reply \<times> redis" where
  "redis_exists r k = execute r (cmd_exists k)"

definition redis_ttl :: "redis \<Rightarrow> string \<Rightarrow> int reply \<times> redis" where
  "redis_ttl r k = execute r (cmd_ttl k)"

definition redis_set_px :: "redis \<Rightarrow> string \<Rightarrow> int \<Rightarrow> int \<Rightarrow> unit reply \<times> redis" where
  "redis_set_px r k v ms = execute r (cmd_set k v (Some ms))"

text \<open>
  \<^verbatim>\<open>ensureConnection\<close> (PendingMintTracker, AbuseDetector): the client is \<^verbatim>\<open>null\<close>
  exactly when no Redis URL was configured; otherwise it is the pool's proxy, whatever
  the state of the server.
\<close>

definition ensureConnection :: "string option \<Rightarrow> bool" where
  "ensureConnection redisUrl = (case redisUrl of None \<Rightarrow> False | Some u \<Rightarrow> u \<noteq> [])"

section \<open>RedisConnectionPool: acquire, release, execute\<close>

text \<open>
  Connections are named by their ids. What the pool cannot decide itself is the
  environment's: whether a connection's status is \<^verbatim>\<open>ready\<close>, whether its ping answers
  within 500 ms, and whether a new connection connects.
\<close>

record conn_env =
  conn_ready :: "nat \<Rightarrow> bool"
  conn_ping :: "nat \<Rightarrow> bool"
  connect_ok :: bool

text \<open>
  A call of \<^verbatim>\<open>acquire()\<close> that has to wait makes a promise and two function objects:
  the promise's own \<^verbatim>\<open>resolve\<close>, and the arrow function
  \<^verbatim>\<open>(conn) => { clearTimeout(timeout); ...; resolve(conn) }\<close> around it. The number
  names the waiting call. \<^verbatim>\<open>waitingQueue\<close> is an array of such functions, compared by
  identity.
\<close>

datatype callback = ResolveFn nat | Wrapper nat

fun waiter :: "callback \<Rightarrow> nat" where
  "waiter (ResolveFn w) = w"
| "waiter (Wrapper w) = w"

record pool =
  connections :: "nat list"
  availableConnections :: "nat list"
  waitingQueue :: "callback list"
  connectionsInUse :: "nat list"
  isShuttingDown :: bool
  opt_min :: nat
  opt_max :: nat
  nextConnectionId :: nat
  nextWaiterId :: nat

text \<open>The fields as the constructor leaves them: \<^verbatim>\<open>options.min || 2\<close>, \<^verbatim>\<open>options.max || 10\<close>.\<close>

definition new_pool :: "nat \<Rightarrow> nat \<Rightarrow> pool" where
  "new_pool optMin optMax =
     \<lparr>connections = [], availableConnections = [], waitingQueue = [], connectionsInUse = [],
      isShuttingDown = False, opt_min = (if optMin = 0 then 2 else optMin),
      opt_max = (if optMax = 0 then 10 else optMax), nextConnectionId = 1, nextWaiterId = 0\<rparr>"

text \<open>A promise as its holder sees it: still pending, resolved with a value, or rejected.\<close>

datatype 'a promise = Pending | Resolved 'a | Rejected string

definition removeConnection :: "nat \<Rightarrow> pool \<Rightarrow> pool" where
  "removeConnection c p =
     p\<lparr>connections := remove1 c (connections p),
       availableConnections := remove1 c (availableConnections p),
       connectionsInUse := removeAll c (connectionsInUse p)\<rparr>"

text \<open>
  The \<^verbatim>\<open>while (connection)\<close> loop of \<^verbatim>\<open>acquire\<close>: pop the free list from its end,
  hand out the first connection that is ready and answers the ping, remove the others.
\<close>

function validate_available :: "conn_env \<Rightarrow> pool \<Rightarrow> nat option \<times> pool" where
  "validate_available env p =
     (case availableConnections p of
        [] \<Rightarrow> (None, p)
      | x # xs \<Rightarrow>
          (let connection = last (availableConnections p);
               p1 = p\<lparr>availableConnections := butlast (availableConnections p)\<rparr>
           in if conn_ready env connection \<and> conn_ping env connection then
                (Some connection, p1\<lparr>connectionsInUse := connection # connectionsInUse p1\<rparr>)
              else validate_available env (removeConnection connection p1)))"
  by pat_completeness auto
termination
  by (relation "measure (\<lambda>(env, p). length (availableConnections p))")
     (auto simp: removeConnection_def length_remove1)

definition createConnection :: "conn_env \<Rightarrow> pool \<Rightarrow> unit outcome \<times> pool" where
  "createConnection env p =
     (if length (connections p) \<ge> opt_max p then (Thrown ''Maximum connections reached'', p)
      else
        (let connectionId = nextConnectionId p;
             p1 = p\<lparr>nextConnectionId := connectionId + 1\<rparr>
         in if connect_ok env then
              (Returned (),
               p1\<lparr>connections := connections p1 @ [connectionId],
                  availableConnections := availableConnections p1 @ [connectionId]\<rparr>)
            else (Thrown ''connect'', p1)))"

datatype acquire_state = Acquired "nat option" | Waiting nat

text \<open>
  \<^verbatim>\<open>acquire()\<close> up to the promise it returns: a connection, \<^verbatim>\<open>null\<close> during
  shutdown, or a pending promise whose wrapper function has been pushed on the waiting
  queue.
\<close>

definition acquire :: "conn_env \<Rightarrow> pool \<Rightarrow> acquire_state \<times> pool" where
  "acquire env p =
     (if isShuttingDown p then (Acquired None, p)
      else
        (case validate_available env p of
           (Some connection, p1) \<Rightarrow> (Acquired (Some connection), p1)
         | (None, p1) \<Rightarrow>
             (case (if length (connections p1) < opt_max p1 then
                      (case createConnection env p1 of
                         (Returned u, p2) \<Rightarrow>
                           (case availableConnections p2 of
                              [] \<Rightarrow> (None, p2)
                            | x # xs \<Rightarrow>
                                (Some (last (availableConnections p2)),
                                 p2\<lparr>availableConnections := butlast (availableConnections p2),
                                    connectionsInUse :=
                                      last (availableConnections p2) # connectionsInUse p2\<rparr>))
                       | (Thrown e, p2) \<Rightarrow> (None, p2))
                    else (None, p1)) of
                (Some connection, p3) \<Rightarrow> (Acquired (Some connection), p3)
              | (None, p3) \<Rightarrow>
                  (Waiting (nextWaiterId p3),
                   p3\<lparr>waitingQueue := waitingQueue p3 @ [Wrapper (nextWaiterId p3)],
                      nextWaiterId := nextWaiterId p3 + 1\<rparr>))))"

text \<open>
  The timer of the waiting call \<open>w\<close> fires after \<^verbatim>\<open>acquireTimeout\<close>:
  \<^verbatim>\<open>const index = this.waitingQueue.indexOf(resolve)\<close> looks for the promise's own
  \<^verbatim>\<open>resolve\<close>; only when it is found is it taken out and the promise resolved with
  \<^verbatim>\<open>null\<close>.
\<close>

definition acquire_timeout :: "nat \<Rightarrow> pool \<Rightarrow> nat option promise \<times> pool" where
  "acquire_timeout w p =
     (if ResolveFn w \<in> set (waitingQueue p)
      then (Resolved None, p\<lparr>waitingQueue := remove1 (ResolveFn w) (waitingQueue p)\<rparr>)
      else (Pending, p))"

text \<open>
  \<^verbatim>\<open>release(connection)\<close>: a healthy connection goes to the first function of the
  waiting queue, or back to the free list. A wrapper marks the connection as in use and
  resolves its promise with it. The second component names the waiting call served, if
  any.
\<close>

definition release :: "conn_env \<Rightarrow> nat \<Rightarrow> pool \<Rightarrow> nat option \<times> pool" where
  "release env connection p =
     (if connection \<notin> set (connectionsInUse p) then (None, p)
      else
        (let p1 = p\<lparr>connectionsInUse := removeAll connection (connectionsInUse p)\<rparr> in
         if conn_ready env connection \<and> \<not> isShuttingDown p1 then
           (case waitingQueue p1 of
              Wrapper w # ws \<Rightarrow>
                (Some w, p1\<lparr>waitingQueue := ws,
                           connectionsInUse := connection # connectionsInUse p1\<rparr>)
            | ResolveFn w # ws \<Rightarrow> (Some w, p1\<lparr>waitingQueue := ws\<rparr>)
            | [] \<Rightarrow>
                (None, p1\<lparr>availableConnections := availableConnections p1 @ [connection]\<rparr>))
         else
           (let p2 = removeConnection connection p1 in
            if \<not> isShuttingDown p2 \<and> length (connections p2) < opt_min p2
            then (None, snd (createConnection env p2)) else (None, p2))))"

text \<open>
  \<^verbatim>\<open>shutdown()\<close>: every function of the waiting queue is called with \<^verbatim>\<open>null\<close>, which
  resolves its promise with \<^verbatim>\<open>null\<close>; the first component names the waiting calls so
  resolved.
\<close>

definition shutdown :: "pool \<Rightarrow> nat list \<times> pool" where
  "shutdown p =
     (map waiter (waitingQueue p),
      p\<lparr>isShuttingDown := True, waitingQueue := [], connections := [],
        availableConnections := []\<rparr>)"

text \<open>
  What a caller of \<^verbatim>\<open>acquire()\<close> holds once its timer has fired, no connection having
  been released and no shutdown having happened in between.
\<close>

definition acquire_until_timeout :: "conn_env \<Rightarrow> pool \<Rightarrow> nat option promise \<times> pool" where
  "acquire_until_timeout env p =
     (case acquire env p of
        (Acquired c, p1) \<Rightarrow> (Resolved c, p1)
      | (Waiting w, p1) \<Rightarrow> acquire_timeout w p1)"

text \<open>
  \<^verbatim>\<open>execute(fn)\<close> on what \<^verbatim>\<open>acquire()\<close> resolved with: without a connection it
  returns \<^verbatim>\<open>null\<close> and does not run \<open>fn\<close>; with one it runs \<open>fn\<close> and passes its
  result or its error on.
\<close>

definition execute_on :: "nat option \<Rightarrow> (nat \<Rightarrow> 'a outcome) \<Rightarrow> 'a reply" where
  "execute_on connection fn =
     (case connection of
        None \<Rightarrow> Null
      | Some c \<Rightarrow> (case fn c of Returned v \<Rightarrow> Reply v | Thrown e \<Rightarrow> Threw))"

text \<open>
  \<^verbatim>\<open>execute(fn)\<close> as a whole, up to the moment the acquire timer has fired:
  \<^verbatim>\<open>await this.acquire()\<close>, the command, and \<^verbatim>\<open>release\<close> in the \<^verbatim>\<open>finally\<close> block.
  \<open>None\<close>: \<^verbatim>\<open>acquire()\<close> is still pending, and so is \<^verbatim>\<open>execute\<close>.
\<close>

definition execute_until_timeout ::
  "conn_env \<Rightarrow> pool \<Rightarrow> (nat \<Rightarrow> 'a outcome) \<Rightarrow> 'a reply option \<times> pool" where
  "execute_until_timeout env p fn =
     (case acquire_until_timeout env p of
        (Pending, p1) \<Rightarrow> (None, p1)
      | (Rejected e, p1) \<Rightarrow> (Some Threw, p1)
      | (Resolved None, p1) \<Rightarrow> (Some Null, p1)
      | (Resolved (Some c), p1) \<Rightarrow> (Some (execute_on (Some c) fn), snd (release env c p1)))"

text \<open>
  The waiting queue of a pool that only \<^verbatim>\<open>acquire\<close>, \<^verbatim>\<open>release\<close>, the timers and
  \<^verbatim>\<open>shutdown\<close> have touched holds wrappers only.
\<close>

definition wrappers_only :: "pool \<Rightarrow> bool" where
  "wrappers_only p = list_all (\<lambda>cb. case cb of Wrapper w \<Rightarrow> True | ResolveFn w \<Rightarrow> False) (waitingQueue p)"

section \<open>PendingMintTracker\<close>

definition keyPrefix :: string where
  "keyPrefix = ''pending_mint:''"

definition pending_key :: "string \<Rightarrow> string" where
  "pending_key tokenAddress = keyPrefix @ toLowerCase tokenAddress"

text \<open>The body of the \<^verbatim>\<open>try\<close> block of \<^verbatim>\<open>incrementPending\<close>: INCRBY, then EXPIRE 3600.\<close>

definition incrementPending_try :: "redis \<Rightarrow> string \<Rightarrow> int \<Rightarrow> int option outcome \<times> redis" where
  "incrementPending_try r key count =
     (case redis_incrby r key count of
        (Threw, r1) \<Rightarrow> (Thrown ''incrby'', r1)
      | (Null, r1) \<Rightarrow>
          (case redis_expire r1 key 3600 of
             (Threw, r2) \<Rightarrow> (Thrown ''expire'', r2)
           | (_, r2) \<Rightarrow> (Returned None, r2))
      | (Reply newCount, r1) \<Rightarrow>
          (case redis_expire r1 key 3600 of
             (Threw, r2) \<Rightarrow> (Thrown ''expire'', r2)
           | (_, r2) \<Rightarrow> (Returned (Some newCount), r2)))"

definition incrementPending ::
  "string option \<Rightarrow> redis \<Rightarrow> string \<Rightarrow> int \<Rightarrow> int option outcome \<times> redis" where
  "incrementPending redisUrl r tokenAddress count =
     (if \<not> ensureConnection redisUrl then (Returned (Some 0), r)
      else
        (case incrementPending_try r (pending_key tokenAddress) count of
           (Thrown e, r1) \<Rightarrow> (Returned (Some 0), r1)
         | (Returned v, r1) \<Rightarrow> (Returned v, r1)))"

text \<open>
  The body of the \<^verbatim>\<open>try\<close> block of \<^verbatim>\<open>decrementPending\<close>: DECRBY, and DEL when
  \<^verbatim>\<open>newCount <= 0\<close> (a \<^verbatim>\<open>null\<close> reply compares as \<open>0\<close>).
\<close>

definition decrementPending_try :: "redis \<Rightarrow> string \<Rightarrow> int \<Rightarrow> int option outcome \<times> redis" where
  "decrementPending_try r key count =
     (case redis_decrby r key count of
        (Threw, r1) \<Rightarrow> (Thrown ''decrby'', r1)
      | (rep, r1) \<Rightarrow>
          (let newCount = (case rep of Reply v \<Rightarrow> Some v | _ \<Rightarrow> None) in
           if js_num newCount \<le> 0 then
             (case redis_del r1 key of
                (Threw, r2) \<Rightarrow> (Thrown ''del'', r2)
              | (_, r2) \<Rightarrow> (Returned (Some 0), r2))
           else (Returned newCount, r1)))"

definition decrementPending ::
  "string option \<Rightarrow> redis \<Rightarrow> string \<Rightarrow> int \<Rightarrow> int option outcome \<times> redis" where
  "decrementPending redisUrl r tokenAddress count =
     (if \<not> ensureConnection redisUrl then (Returned (Some 0), r)
      else
        (case decrementPending_try r (pending_key tokenAddress) count of
           (Thrown e, r1) \<Rightarrow> (Returned (Some 0), r1)
         | (Returned v, r1) \<Rightarrow> (Returned v, r1)))"

text \<open>
  \<^verbatim>\<open>getPendingCount\<close>: \<^verbatim>\<open>count ? parseInt(count, 10) : 0\<close>; the reply is a
  non-empty decimal string (truthy) or \<^verbatim>\<open>null\<close>.
\<close>

definition getPendingCount :: "string option \<Rightarrow> redis \<Rightarrow> string \<Rightarrow> int outcome \<times> redis" where
  "getPendingCount redisUrl r tokenAddress =
     (if \<not> ensureConnection redisUrl then (Returned 0, r)
      else
        (case redis_get r (pending_key tokenAddress) of
           (Threw, r1) \<Rightarrow> (Returned 0, r1)
         | (Null, r1) \<Rightarrow> (Returned 0, r1)
         | (Reply None, r1) \<Rightarrow> (Returned 0, r1)
         | (Reply (Some v), r1) \<Rightarrow> (Returned v, r1)))"

section \<open>TokenCapacityManager: reserve and release\<close>

definition reserveCapacity ::
  "string option \<Rightarrow> redis \<Rightarrow> string \<Rightarrow> int \<Rightarrow> unit outcome \<times> redis" where
  "reserveCapacity redisUrl r tokenAddress count =
     (case incrementPending redisUrl r tokenAddress count of
        (Thrown e, r1) \<Rightarrow> (Thrown e, r1)
      | (Returned v, r1) \<Rightarrow> (Returned (), r1))"

definition releaseCapacity ::
  "string option \<Rightarrow> redis \<Rightarrow> string \<Rightarrow> int \<Rightarrow> unit outcome \<times> redis" where
  "releaseCapacity redisUrl r tokenAddress count =
     (case decrementPending redisUrl r tokenAddress count of
        (Thrown e, r1) \<Rightarrow> (Thrown e, r1)
      | (Returned v, r1) \<Rightarrow> (Returned (), r1))"

text \<open>The integer that \<^verbatim>\<open>pending_mint:<token>\<close> holds; an absent key reads as \<open>0\<close>.\<close>

definition pending_value :: "keyspace \<Rightarrow> string \<Rightarrow> int" where
  "pending_value s tokenAddress =
     (case s (pending_key tokenAddress) of None \<Rightarrow> 0 | Some e \<Rightarrow> rval e)"

text \<open>
  A history of reservations and releases on one token. Counts are the lengths of
  recipient lists, hence natural numbers. \<open>matched ops out\<close> holds when every release in
  \<open>ops\<close> gives back the count of a reservation that is still outstanding (\<open>out\<close>, or
  made earlier in \<open>ops\<close>) and nothing is outstanding at the end.
\<close>

datatype cap_op = Reserve nat | Release nat

fun run_ops :: "string option \<Rightarrow> redis \<Rightarrow> string \<Rightarrow> cap_op list \<Rightarrow> redis" where
  "run_ops redisUrl r t [] = r"
| "run_ops redisUrl r t (Reserve n # ops) =
     run_ops redisUrl (snd (reserveCapacity redisUrl r t (int n))) t ops"
| "run_ops redisUrl r t (Release n # ops) =
     run_ops redisUrl (snd (releaseCapacity redisUrl r t (int n))) t ops"

fun matched :: "cap_op list \<Rightarrow> nat list \<Rightarrow> bool" where
  "matched [] out = (out = [])"
| "matched (Reserve n # ops) out = matched ops (n # out)"
| "matched (Release n # ops) out = (n \<in> set out \<and> matched ops (remove1 n out))"

section \<open>TokenCapacityManager: the capacity check\<close>

text \<open>
  The chain node is an external collaborator: a contract read answers with an unsigned
  integer (a bigint in the source) or rejects (\<open>None\<close>). The capacity manager turns
  what it reads into JavaScript numbers with \<^verbatim>\<open>Number()\<close> and computes with them.
\<close>

record chain =
  chain_maxMintCount :: "string \<Rightarrow> int option"
  chain_mintCount :: "string \<Rightarrow> int option"
  chain_deploymentDeadline :: "string \<Rightarrow> int option"

record TokenCapacityInfo =
  maxMintCount :: int
  currentMintCount :: int
  pendingCount :: int
  availableSlots :: int

datatype cap_error = CAPACITY_EXCEEDED TokenCapacityInfo | ReadError string

text \<open>\<^verbatim>\<open>TokenMaxMintCache.getMaxMintCount\<close>: a permanent cache keyed by the lowercased address.\<close>

definition getMaxMintCount ::
  "chain \<Rightarrow> (string \<Rightarrow> int option) \<Rightarrow> string \<Rightarrow> int outcome \<times> (string \<Rightarrow> int option)" where
  "getMaxMintCount ch cache tokenAddress =
     (let cacheKey = toLowerCase tokenAddress in
      case cache cacheKey of
        Some cached \<Rightarrow> (Returned cached, cache)
      | None \<Rightarrow>
          (case chain_maxMintCount ch tokenAddress of
             None \<Rightarrow> (Thrown ''maxMintCount'', cache)
           | Some maxCount \<Rightarrow>
               (let v = Number maxCount in (Returned v, cache(cacheKey \<mapsto> v)))))"

text \<open>
  \<^verbatim>\<open>getCurrentMintCount\<close>: a cache entry is \<open>(value, fetchedAt)\<close> and is fresh for
  \<^verbatim>\<open>mintCountTTL = 6000\<close> ms; after a failed read a stale entry is returned.
\<close>

definition mintCountTTL :: int where
  "mintCountTTL = 6000"

definition getCurrentMintCount ::
  "chain \<Rightarrow> (string \<Rightarrow> (int \<times> int) option) \<Rightarrow> int \<Rightarrow> string \<Rightarrow>
     int outcome \<times> (string \<Rightarrow> (int \<times> int) option)" where
  "getCurrentMintCount ch cache now tokenAddress =
     (let cacheKey = toLowerCase tokenAddress; cached = cache cacheKey in
      if (case cached of None \<Rightarrow> False | Some (v, fetchedAt) \<Rightarrow> now - fetchedAt < mintCountTTL)
      then (Returned (fst (the cached)), cache)
      else
        (case chain_mintCount ch tokenAddress of
           Some mintCount \<Rightarrow>
             (let v = Number mintCount in (Returned v, cache(cacheKey \<mapsto> (v, now))))
         | None \<Rightarrow>
             (case cached of
                Some (v, fetchedAt) \<Rightarrow> (Returned v, cache)
              | None \<Rightarrow> (Thrown ''mintCount'', cache))))"

text \<open>
  \<^verbatim>\<open>checkCapacity\<close>: the three reads of \<^verbatim>\<open>Promise.all\<close> are all started; a rejected
  read rejects the check with that read's error. \<^verbatim>\<open>requestedCount\<close> is a JavaScript
  number (the length of the recipient list); the sum and the difference are those of
  doubles.
\<close>

definition checkCapacity ::
  "string option \<Rightarrow> chain \<Rightarrow> (string \<Rightarrow> int option) \<Rightarrow> (string \<Rightarrow> (int \<times> int) option) \<Rightarrow>
     redis \<Rightarrow> int \<Rightarrow> string \<Rightarrow> int \<Rightarrow>
     (cap_error + TokenCapacityInfo) \<times> (string \<Rightarrow> int option) \<times>
       (string \<Rightarrow> (int \<times> int) option) \<times> redis" where
  "checkCapacity redisUrl ch maxCache mintCache r now tokenAddress requestedCount =
     (case getCurrentMintCount ch mintCache now tokenAddress of (cur, mintCache1) \<Rightarrow>
      case getMaxMintCount ch maxCache tokenAddress of (mx, maxCache1) \<Rightarrow>
      case getPendingCount redisUrl r tokenAddress of (pend, r1) \<Rightarrow>
        (case (cur, mx, pend) of
           (Returned current, Returned maxCount, Returned pending) \<Rightarrow>
             (let totalExpected = js_add (js_add current pending) requestedCount;
                  available = js_sub (js_sub maxCount current) pending;
                  capacityInfo = \<lparr>maxMintCount = maxCount,
                                  currentMintCount = current,
                                  pendingCount = pending,
                                  availableSlots = available\<rparr> in
              if totalExpected > maxCount then Inl (CAPACITY_EXCEEDED capacityInfo)
              else Inr capacityInfo)
         | (Thrown e, _, _) \<Rightarrow> Inl (ReadError e)
         | (_, Thrown e, _) \<Rightarrow> Inl (ReadError e)
         | (_, _, Thrown e) \<Rightarrow> Inl (ReadError e),
         maxCache1, mintCache1, r1))"

section \<open>AbuseDetector\<close>

record AbuseConfig =
  maxRequestsPerWindow :: int
  timeWindowMs :: int
  banDurationMs :: int

definition REQUEST_COUNT_PREFIX :: string where
  "REQUEST_COUNT_PREFIX = ''abuse:count:''"

definition BAN_PREFIX :: string where
  "BAN_PREFIX = ''abuse:ban:''"

definition WHITELIST_PREFIX :: string where
  "WHITELIST_PREFIX = ''abuse:whitelist:''"

text \<open>
  The reason strings of a denial, by the values their templates interpolate: the minutes
  \<^verbatim>\<open>Math.ceil(ttl / 60)\<close> of a ban, or the limit and the window of the rate limit.
\<close>

datatype abuse_reason = BannedFor int | RateLimitExceeded int int

record abuse_result =
  allowed :: bool
  reason :: "abuse_reason option"

definition allow :: abuse_result where
  "allow = \<lparr>allowed = True, reason = None\<rparr>"

definition ceil_div60 :: "int \<Rightarrow> int" where
  "ceil_div60 ttl = - ((- ttl) div 60)"

definition reply_value :: "'a reply \<Rightarrow> 'a option" where
  "reply_value rep = (case rep of Reply v \<Rightarrow> Some v | _ \<Rightarrow> None)"

text \<open>\<^verbatim>\<open>isWhitelisted\<close> has no \<^verbatim>\<open>try\<close> of its own: a failing EXISTS rejects it.\<close>

definition isWhitelisted :: "string option \<Rightarrow> redis \<Rightarrow> string \<Rightarrow> bool outcome \<times> redis" where
  "isWhitelisted redisUrl r key =
     (if \<not> ensureConnection redisUrl then (Returned False, r)
      else
        (case redis_exists r (WHITELIST_PREFIX @ key) of
           (Threw, r1) \<Rightarrow> (Thrown ''exists'', r1)
         | (rep, r1) \<Rightarrow> (Returned (reply_value rep = Some 1), r1)))"

text \<open>\<^verbatim>\<open>isBanned\<close> catches: a failing EXISTS reads as not banned.\<close>

definition isBanned :: "string option \<Rightarrow> redis \<Rightarrow> string \<Rightarrow> bool \<times> redis" where
  "isBanned redisUrl r identifier =
     (if \<not> ensureConnection redisUrl then (False, r)
      else
        (case redis_exists r (BAN_PREFIX @ identifier) of
           (Threw, r1) \<Rightarrow> (False, r1)
         | (rep, r1) \<Rightarrow> (reply_value rep = Some 1, r1)))"

text \<open>\<^verbatim>\<open>banIdentifier\<close> catches: a failing SET is logged and nothing else.\<close>

definition banIdentifier :: "AbuseConfig \<Rightarrow> string option \<Rightarrow> redis \<Rightarrow> string \<Rightarrow> redis" where
  "banIdentifier cfg redisUrl r identifier =
     (if \<not> ensureConnection redisUrl then r
      else snd (redis_set_px r (BAN_PREFIX @ identifier) 1 (banDurationMs cfg)))"

text \<open>The body of the \<^verbatim>\<open>try\<close> block of \<^verbatim>\<open>recordRequest\<close>.\<close>

definition recordRequest_try ::
  "AbuseConfig \<Rightarrow> string option \<Rightarrow> redis \<Rightarrow> string \<Rightarrow> abuse_result outcome \<times> redis" where
  "recordRequest_try cfg redisUrl r key =
     (case isWhitelisted redisUrl r key of
        (Thrown e, r1) \<Rightarrow> (Thrown e, r1)
      | (Returned True, r1) \<Rightarrow> (Returned allow, r1)
      | (Returned False, r1) \<Rightarrow>
          (case isBanned redisUrl r1 key of
             (True, r2) \<Rightarrow>
               (case redis_ttl r2 (BAN_PREFIX @ key) of
                  (Threw, r3) \<Rightarrow> (Thrown ''ttl'', r3)
                | (rep, r3) \<Rightarrow>
                    (Returned \<lparr>allowed = False,
                       reason = Some (BannedFor (ceil_div60 (js_num (reply_value rep))))\<rparr>, r3))
           | (False, r2) \<Rightarrow>
               (let countKey = REQUEST_COUNT_PREFIX @ key in
                case redis_incr r2 countKey of
                  (Threw, r3) \<Rightarrow> (Thrown ''incr'', r3)
                | (rep, r3) \<Rightarrow>
                    (let count = reply_value rep in
                     case (if count = Some 1 then redis_pexpire r3 countKey (timeWindowMs cfg)
                           else (Reply 0, r3)) of
                       (Threw, r4) \<Rightarrow> (Thrown ''pexpire'', r4)
                     | (rep', r4) \<Rightarrow>
                         (if js_num count > maxRequestsPerWindow cfg then
                            (Returned \<lparr>allowed = False,
                               reason = Some (RateLimitExceeded (maxRequestsPerWindow cfg)
                                               (timeWindowMs cfg))\<rparr>,
                             banIdentifier cfg redisUrl r4 key)
                          else (Returned allow, r4))))))"

definition recordRequest ::
  "AbuseConfig \<Rightarrow> string option \<Rightarrow> redis \<Rightarrow> string \<Rightarrow> abuse_result \<times> redis" where
  "recordRequest cfg redisUrl r identifier =
     (if \<not> ensureConnection redisUrl then (allow, r)
      else
        (case recordRequest_try cfg redisUrl r (toLowerCase identifier) of
           (Thrown e, r1) \<Rightarrow> (allow, r1)
         | (Returned res, r1) \<Rightarrow> (res, r1)))"

text \<open>\<^verbatim>\<open>createIdentifier(address?, ip?)\<close>; an empty string is falsy.\<close>

definition createIdentifier :: "string option \<Rightarrow> string option \<Rightarrow> string" where
  "createIdentifier address ip =
     (if truthy address \<and> truthy ip then
        ''addr:'' @ toLowerCase (the address) @ ''_ip:'' @ the ip
      else if truthy address then ''addr:'' @ toLowerCase (the address)
      else if truthy ip then ''ip:'' @ the ip
      else ''unknown'')"

text \<open>
  The specification's wording of \<^verbatim>\<open>recordRequest\<close> on a Redis whose commands work,
  as a function of the keyspace: whitelisted, allow; ban key present, deny with the
  remaining TTL; else count, set the window TTL on the transition to \<open>1\<close>, and above
  the limit write the ban key with the ban duration and deny.
\<close>

definition recordRequest_spec :: "AbuseConfig \<Rightarrow> keyspace \<Rightarrow> string \<Rightarrow> abuse_result \<times> keyspace" where
  "recordRequest_spec cfg s ident =
     (let key = toLowerCase ident;
          banKey = BAN_PREFIX @ key;
          countKey = REQUEST_COUNT_PREFIX @ key;
          count = (case s countKey of None \<Rightarrow> 1 | Some e \<Rightarrow> rval e + 1);
          counted = s(countKey \<mapsto>
            \<lparr>rval = count,
             rttl = (if count = 1 then Some (timeWindowMs cfg)
                     else (case s countKey of None \<Rightarrow> None | Some e \<Rightarrow> rttl e))\<rparr>)
      in
        if s (WHITELIST_PREFIX @ key) \<noteq> None then (allow, s)
        else if s banKey \<noteq> None then
          (\<lparr>allowed = False, reason = Some (BannedFor (ceil_div60 (fst (cmd_ttl banKey s))))\<rparr>, s)
        else if count > maxRequestsPerWindow cfg then
          (\<lparr>allowed = False,
            reason = Some (RateLimitExceeded (maxRequestsPerWindow cfg) (timeWindowMs cfg))\<rparr>,
           counted(banKey \<mapsto> \<lparr>rval = 1, rttl = Some (banDurationMs cfg)\<rparr>))
        else (allow, counted))"

section \<open>TokenDeadlineCache\<close>

definition getDeploymentDeadline ::
  "chain \<Rightarrow> (string \<Rightarrow> int option) \<Rightarrow> string \<Rightarrow> int outcome \<times> (string \<Rightarrow> int option)" where
  "getDeploymentDeadline ch cache tokenAddress =
     (let cacheKey = toLowerCase tokenAddress in
      case cache cacheKey of
        Some cached \<Rightarrow> (Returned cached, cache)
      | None \<Rightarrow>
          (case chain_deploymentDeadline ch tokenAddress of
             None \<Rightarrow> (Thrown ''deploymentDeadline'', cache)
           | Some deadline \<Rightarrow> (Returned deadline, cache(cacheKey \<mapsto> deadline))))"

text \<open>\<open>now\<close> is \<^verbatim>\<open>Math.floor(Date.now() / 1000)\<close>, in Unix seconds.\<close>

definition isTokenExpired ::
  "chain \<Rightarrow> (string \<Rightarrow> int option) \<Rightarrow> int \<Rightarrow> string \<Rightarrow> bool outcome \<times> (string \<Rightarrow> int option)" where
  "isTokenExpired ch cache now tokenAddress =
     (case getDeploymentDeadline ch cache tokenAddress of
        (Thrown e, cache1) \<Rightarrow> (Thrown e, cache1)
      | (Returned deadline, cache1) \<Rightarrow> (Returned (now > deadline), cache1))"

section \<open>BatchSettleManager\<close>

record SettleItem =
  requestId :: string
  paymentPayload :: string
  paymentRequirements :: string
  timestamp :: int

record SettleResult =
  res_requestId :: string
  res_success :: bool
  res_transaction :: "string option"
  res_nonce :: "int option"
  res_error :: "string option"

text \<open>
  The facilitator is an external collaborator. Its answer to one \<^verbatim>\<open>/verify\<close> call is a
  non-2xx status, a JSON body of which the program reads the fields \<^verbatim>\<open>isValid\<close>,
  \<^verbatim>\<open>reason\<close> and \<^verbatim>\<open>invalidReason\<close> (in this order below), or a failed fetch with the
  error's message. Its answer to \<^verbatim>\<open>/settle/batch\<close> is a non-2xx status with a text, a
  JSON body with the positional \<^verbatim>\<open>results\<close>, or a failed fetch.
\<close>

datatype verify_reply =
  VerifyHttpError nat | VerifyJson bool "string option" "string option" | VerifyThrows string

record facilitator_result =
  fr_index :: int
  fr_success :: bool
  fr_transaction :: "string option"
  fr_nonce :: int
  fr_error :: "string option"

datatype batch_reply =
  BatchHttpError nat string | BatchJson "facilitator_result list" | BatchThrows string

record verifyResult =
  v_item :: SettleItem
  v_valid :: bool
  v_reason :: "string option"

text \<open>
  The re-verify of one item in \<^verbatim>\<open>batchSettle\<close>:
  \<^verbatim>\<open>return { item, valid: result.isValid, reason: result.invalidReason }\<close>.
\<close>

definition verify_item :: "(SettleItem \<Rightarrow> verify_reply) \<Rightarrow> SettleItem \<Rightarrow> verifyResult" where
  "verify_item verify item =
     (case verify item of
        VerifyHttpError st \<Rightarrow>
          \<lparr>v_item = item, v_valid = False, v_reason = Some (''HTTP '' @ decimal st)\<rparr>
      | VerifyJson isValid reason' invalidReason \<Rightarrow>
          \<lparr>v_item = item, v_valid = isValid, v_reason = invalidReason\<rparr>
      | VerifyThrows msg \<Rightarrow> \<lparr>v_item = item, v_valid = False, v_reason = Some msg\<rparr>)"

text \<open>
  The reason \<^verbatim>\<open>handleMintRequest\<close> reports for an invalid payment, from an answer of
  the same endpoint: \<^verbatim>\<open>verifyResponse.reason || verifyResponse.invalidReason\<close> (the
  comment there: "facilitator returns 'reason'").
\<close>

definition handler_verify_reason :: "verify_reply \<Rightarrow> string option" where
  "handler_verify_reason verifyResponse =
     (case verifyResponse of
        VerifyJson isValid reason' invalidReason \<Rightarrow>
          (if truthy reason' then reason' else invalidReason)
      | _ \<Rightarrow> None)"

text \<open>
  \<^verbatim>\<open>new Map(validItems.map((item, index) => [item.requestId, index]))\<close>: of two entries
  with one key the later one stays.
\<close>

fun index_map :: "string list \<Rightarrow> nat \<Rightarrow> string \<Rightarrow> nat option" where
  "index_map [] i = Map.empty"
| "index_map (k # ks) i = [k \<mapsto> i] ++ index_map ks (Suc i)"

definition verification_failed :: "verifyResult list \<Rightarrow> SettleItem \<Rightarrow> SettleResult" where
  "verification_failed invalidItems item =
     (let invalidItem = find (\<lambda>iv. requestId (v_item iv) = requestId item) invalidItems;
          r = (case invalidItem of None \<Rightarrow> None | Some iv \<Rightarrow> v_reason iv)
      in \<lparr>res_requestId = requestId item, res_success = False, res_transaction = None,
           res_nonce = None,
           res_error = Some (''Verification failed: '' @ (if truthy r then the r else ''unknown''))\<rparr>)"

definition from_settle :: "SettleItem \<Rightarrow> facilitator_result \<Rightarrow> SettleResult" where
  "from_settle item settleResult =
     \<lparr>res_requestId = requestId item, res_success = fr_success settleResult,
      res_transaction = fr_transaction settleResult, res_nonce = Some (fr_nonce settleResult),
      res_error = fr_error settleResult\<rparr>"

text \<open>
  The loop that builds \<^verbatim>\<open>finalResults\<close>. Reading a field of
  \<^verbatim>\<open>result.results[validIndex]\<close> beyond the end of the array throws a TypeError.
\<close>

fun final_results ::
  "(string \<Rightarrow> nat option) \<Rightarrow> verifyResult list \<Rightarrow> facilitator_result list \<Rightarrow>
     SettleItem list \<Rightarrow> SettleResult list outcome" where
  "final_results validItemsMap invalidItems results [] = Returned []"
| "final_results validItemsMap invalidItems results (item # items) =
     (case validItemsMap (requestId item) of
        Some validIndex \<Rightarrow>
          (if validIndex < length results then
             (case final_results validItemsMap invalidItems results items of
                Thrown e \<Rightarrow> Thrown e
              | Returned rest \<Rightarrow> Returned (from_settle item (results ! validIndex) # rest))
           else Thrown ''TypeError'')
      | None \<Rightarrow>
          (case final_results validItemsMap invalidItems results items of
             Thrown e \<Rightarrow> Thrown e
           | Returned rest \<Rightarrow> Returned (verification_failed invalidItems item # rest)))"

definition all_failed :: "SettleItem \<Rightarrow> SettleResult" where
  "all_failed item =
     \<lparr>res_requestId = requestId item, res_success = False, res_transaction = None,
      res_nonce = None, res_error = Some ''All payments failed verification''\<rparr>"

text \<open>
  \<^verbatim>\<open>batchSettle(items)\<close>. Beside its result the model returns the \<^verbatim>\<open>items\<close> array of
  the body posted to \<^verbatim>\<open>/settle/batch\<close>, or \<open>None\<close> when nothing is posted.
\<close>

definition batchSettle ::
  "(SettleItem \<Rightarrow> verify_reply) \<Rightarrow> ((string \<times> string) list \<Rightarrow> batch_reply) \<Rightarrow> SettleItem list \<Rightarrow>
     SettleResult list outcome \<times> (string \<times> string) list option" where
  "batchSettle verify settle items =
     (let verifyResults = map (verify_item verify) items;
          validItems = map v_item (filter v_valid verifyResults);
          invalidItems = filter (\<lambda>r. \<not> v_valid r) verifyResults
      in if length validItems = 0 then (Returned (map all_failed items), None)
         else
           (let posted = map (\<lambda>item. (paymentPayload item, paymentRequirements item)) validItems
            in case settle posted of
                 BatchThrows msg \<Rightarrow> (Thrown msg, Some posted)
               | BatchHttpError st errorText \<Rightarrow>
                   (Thrown (''Facilitator batch settle failed: '' @ decimal st @ '' '' @ errorText),
                    Some posted)
               | BatchJson results \<Rightarrow>
                   (final_results (index_map (map requestId validItems) 0) invalidItems results
                      items,
                    Some posted)))"

text \<open>
  The manager's state. \<^verbatim>\<open>queue\<close> is a JavaScript Map, which iterates in insertion
  order; \<^verbatim>\<open>pendingPromises\<close> holds the ids whose callers still wait; \<open>completed\<close>
  logs, in order, which caller was resolved or rejected with what.
\<close>

datatype completion = Resolve SettleResult | Reject string

record manager =
  queue :: "(string \<times> SettleItem) list"
  pendingPromises :: "string list"
  timer :: bool
  processing :: bool
  batchSize :: nat
  completed :: "(string \<times> completion) list"

text \<open>The constructor: \<^verbatim>\<open>options.batchSize || 10\<close>.\<close>

definition new_manager :: "nat \<Rightarrow> manager" where
  "new_manager optBatchSize =
     \<lparr>queue = [], pendingPromises = [], timer = False, processing = False,
      batchSize = (if optBatchSize = 0 then 10 else optBatchSize), completed = []\<rparr>"


definition map_delete :: "string \<Rightarrow> (string \<times> 'v) list \<Rightarrow> (string \<times> 'v) list" where
  "map_delete k kvs = filter (\<lambda>kv. fst kv \<noteq> k) kvs"



definition to_completion :: "SettleResult \<Rightarrow> completion" where
  "to_completion result =
     (if res_success result then Resolve result
      else Reject (if truthy (res_error result) then the (res_error result) else ''Settle failed''))"

definition complete :: "string \<Rightarrow> completion \<Rightarrow> manager \<Rightarrow> manager" where
  "complete rid c m =
     (if rid \<in> set (pendingPromises m) then
        m\<lparr>completed := completed m @ [(rid, c)],
          queue := map_delete rid (queue m),
          pendingPromises := removeAll rid (pendingPromises m)\<rparr>
      else m)"

text \<open>
  The rest of \<^verbatim>\<open>flush()\<close>, once \<^verbatim>\<open>batchSettle\<close> has settled: hand every result to
  its caller, or the error to every caller of the batch; then clear \<^verbatim>\<open>processing\<close>
  and arm the timer if items remain.
\<close>

definition flush_finish ::
  "manager \<Rightarrow> SettleItem list \<Rightarrow> SettleResult list outcome \<Rightarrow> manager" where
  "flush_finish m batchItems outcome =
     (let m1 = (case outcome of
                  Returned results \<Rightarrow>
                    foldl (\<lambda>m' result. complete (res_requestId result) (to_completion result) m')
                      m results
                | Thrown e \<Rightarrow>
                    foldl (\<lambda>m' item. complete (requestId item) (Reject e) m') m batchItems);
          m2 = m1\<lparr>processing := False\<rparr>
      in if length (queue m2) > 0 then m2\<lparr>timer := True\<rparr> else m2)"




text \<open>
  The positional reading of the specification: walking the batch in insertion order,
  the \<open>k\<close>-th valid item takes \<open>results[k]\<close>, an invalid item fails with its reason.
\<close>

fun demux_spec ::
  "(SettleItem \<Rightarrow> verify_reply) \<Rightarrow> facilitator_result list \<Rightarrow> nat \<Rightarrow> SettleItem list \<Rightarrow>
     SettleResult list" where
  "demux_spec verify results k [] = []"
| "demux_spec verify results k (item # items) =
     (if v_valid (verify_item verify item)
      then from_settle item (results ! k) # demux_spec verify results (Suc k) items
      else \<lparr>res_requestId = requestId item, res_success = False, res_transaction = None,
            res_nonce = None,
            res_error = Some (''Verification failed: '' @
              (if truthy (v_reason (verify_item verify item))
               then the (v_reason (verify_item verify item)) else ''unknown''))\<rparr>
           # demux_spec verify results k items)"

section \<open>Admission pipeline: request validation\<close>

datatype json =
  JString string | JNumber int | JBool bool | JNull | JObject "(string \<times> json) list"

record http_response =
  status :: nat
  headers :: "(string \<times> string) list"
  body :: json

text \<open>
  What \<^verbatim>\<open>handleMintRequest\<close> reads of a request: the body fields (\<open>None\<close> when the
  field is missing, or for the recipients not an array), the \<^verbatim>\<open>X-Payment\<close> header
  and the client IP the handler derives from the forwarding headers or the socket.
\<close>

record mint_request =
  req_tokenAddress :: "string option"
  req_recipients :: "string list option"
  req_paymentHeader :: "string option"
  req_clientIP :: string

text \<open>\<^verbatim>\<open>String.prototype.trim\<close> on the ASCII white space.\<close>

definition is_space :: "char \<Rightarrow> bool" where
  "is_space c = ((of_char c :: nat) \<in> set [9, 10, 11, 12, 13, 32])"

definition trim :: "string \<Rightarrow> string" where
  "trim s = rev (dropWhile is_space (rev (dropWhile is_space s)))"

definition PAYMENT_TOKEN_ADDRESS :: string where
  "PAYMENT_TOKEN_ADDRESS = ''0x2CBa817f6e3Ca58ff702Dc66feEEcb230A2EF349''"

definition PAYMENT_TOKEN_NAME :: string where
  "PAYMENT_TOKEN_NAME = ''USD4''"

text \<open>\<^verbatim>\<open>parseUnits('10', 6)\<close>: ten units of a token with six decimals.\<close>

definition MINT_PRICE_USDT :: nat where
  "MINT_PRICE_USDT = 10 * 10 ^ 6"

definition quoted :: "string \<Rightarrow> string" where
  "quoted s = [CHR 0x22] @ s @ [CHR 0x22]"

definition error_body :: "string \<Rightarrow> json" where
  "error_body msg = JObject [(''error'', JString msg)]"

text \<open>The parameter checks before Step 0.5; the token address is trimmed first.\<close>

definition validate_body :: "mint_request \<Rightarrow> http_response + string \<times> string list" where
  "validate_body req =
     (let tokenAddress = map_option trim (req_tokenAddress req) in
      if \<not> truthy tokenAddress then
        Inl \<lparr>status = 400, headers = [],
             body = error_body ''Missing required field: tokenAddress''\<rparr>
      else
        (case req_recipients req of
           None \<Rightarrow>
             Inl \<lparr>status = 400, headers = [],
                  body = error_body ''Missing required field: recipients''\<rparr>
         | Some recipients \<Rightarrow>
             if length recipients = 0 \<or> length recipients > 100 then
               Inl \<lparr>status = 400, headers = [],
                    body = error_body ''Recipients must be between 1 and 100 addresses''\<rparr>
             else Inr (the tokenAddress, recipients)))"

section \<open>Admission pipeline: the deadline gate\<close>

definition expired_minimal :: "string \<Rightarrow> http_response" where
  "expired_minimal tokenAddress =
     \<lparr>status = 410, headers = [],
      body = JObject [(''error'', JString ''Token deployment period has ended''),
                      (''tokenAddress'', JString tokenAddress)]\<rparr>"

definition expired_remaining :: "string \<Rightarrow> int \<Rightarrow> http_response" where
  "expired_remaining tokenAddress difference =
     \<lparr>status = 410, headers = [],
      body = JObject [(''error'', JString ''Token deployment period has ended''),
                      (''message'', JString ''This token's deployment deadline has passed''),
                      (''tokenAddress'', JString tokenAddress),
                      (''remainingTime'', JNumber difference)]\<rparr>"

text \<open>
  Step 0.5 of \<^verbatim>\<open>handleMintRequest\<close>. A deadline that cannot be read lets the request
  through (the \<^verbatim>\<open>catch\<close> of the step only logs).
\<close>

definition deadline_gate ::
  "AbuseConfig \<Rightarrow> string option \<Rightarrow> chain \<Rightarrow> (string \<Rightarrow> int option) \<Rightarrow> redis \<Rightarrow> int \<Rightarrow>
     string \<Rightarrow> string \<Rightarrow> http_response option \<times> (string \<Rightarrow> int option) \<times> redis" where
  "deadline_gate cfg redisUrl ch cache r now clientIP tokenAddress =
     (case getDeploymentDeadline ch cache tokenAddress of
        (Thrown e, cache1) \<Rightarrow> (None, cache1, r)
      | (Returned deadline, cache1) \<Rightarrow>
          (let difference = deadline - now in
           if difference \<le> 0 then
             (let expiredTokenIdentifier = createIdentifier None (Some (clientIP @ '':expired''))
              in case recordRequest cfg redisUrl r expiredTokenIdentifier of
                   (expiredCheck, r1) \<Rightarrow>
                     if \<not> allowed expiredCheck then (Some (expired_minimal tokenAddress), cache1, r1)
                     else (Some (expired_remaining tokenAddress difference), cache1, r1))
           else (None, cache1, r)))"

section \<open>Admission pipeline: the 402 challenge\<close>

definition paymentOptionsHeader :: "string \<Rightarrow> string" where
  "paymentOptionsHeader tokenAddress =
     ''scheme='' @ quoted ''exact'' @ '', network='' @ quoted ''bsc'' @
     '', token='' @ quoted PAYMENT_TOKEN_ADDRESS @ '', payee='' @ quoted tokenAddress @
     '', amount='' @ quoted (decimal MINT_PRICE_USDT)"

definition challenge_response :: "string \<Rightarrow> http_response" where
  "challenge_response tokenAddress =
     \<lparr>status = 402,
      headers = [(''X-Payment-Options'', paymentOptionsHeader tokenAddress)],
      body = JObject
        [(''error'', JString ''Payment required''),
         (''message'', JString ''Please include X-PAYMENT header with signed authorization''),
         (''paymentRequired'', JObject
            [(''price'', JString ''10 USD4''),
             (''amount'', JString (decimal MINT_PRICE_USDT)),
             (''payTo'', JString tokenAddress),
             (''token'', JString PAYMENT_TOKEN_ADDRESS),
             (''tokenName'', JString PAYMENT_TOKEN_NAME),
             (''tokenVersion'', JString ''1''),
             (''network'', JString ''bsc'')])]\<rparr>"

text \<open>
  The environment of one run of the handler: configuration, the answers of the chain
  node, the caches and Redis as they stand, the clock, and what
  \<^verbatim>\<open>abuseDetector.getStats\<close> says about the whitelist.
\<close>

record handler_env =
  env_cfg :: AbuseConfig
  env_redisUrl :: "string option"
  env_chain :: chain
  env_deadlineCache :: "string \<Rightarrow> int option"
  env_redis :: redis
  env_now :: int
  env_requireWhitelist :: bool
  env_isWhitelisted :: bool

datatype front_result = Responded http_response | Verify string "string list" string

text \<open>
  \<^verbatim>\<open>handleMintRequest\<close> up to Step 1: the whitelist gate, the parameter checks, the
  deadline gate, and the 402 challenge when no \<^verbatim>\<open>X-Payment\<close> header came; a request
  with a payment header goes on to verification.
\<close>

definition mint_front :: "handler_env \<Rightarrow> mint_request \<Rightarrow> front_result" where
  "mint_front env req =
     (if env_requireWhitelist env \<and> \<not> env_isWhitelisted env then
        Responded \<lparr>status = 403, headers = [], body = error_body ''Access denied''\<rparr>
      else
        (case validate_body req of
           Inl resp \<Rightarrow> Responded resp
         | Inr (tokenAddress, recipients) \<Rightarrow>
             (case deadline_gate (env_cfg env) (env_redisUrl env) (env_chain env)
                     (env_deadlineCache env) (env_redis env) (env_now env)
                     (req_clientIP req) tokenAddress of
                (Some resp, cache1, r1) \<Rightarrow> Responded resp
              | (None, cache1, r1) \<Rightarrow>
                  if \<not> truthy (req_paymentHeader req) then
                    Responded (challenge_response tokenAddress)
                  else Verify tokenAddress recipients (the (req_paymentHeader req)))))"

section \<open>Admission pipeline: reserve, settle, release\<close>

text \<open>
  Steps 5 to 7 of \<^verbatim>\<open>handleMintRequest\<close>. The calls the handler makes on the capacity
  manager and the response it sends are recorded, in order, as events.
\<close>

datatype event = EvReserve string int | EvRelease string int | EvRespond nat

datatype response = Response nat string

fun status_of :: "response \<Rightarrow> nat" where
  "status_of (Response st err) = st"

text \<open>
  What \<^verbatim>\<open>withTimeout(batchManager.addToQueue(...), 180000, 'Batch settle')\<close> gives the
  handler: the \<^verbatim>\<open>transaction\<close> of the SettleResult it resolved with, or a rejection
  with the error's \<^verbatim>\<open>reason\<close> and message. A timeout is a rejection without reason.
\<close>

datatype settle_outcome = SettleResolved "string option" | SettleRejected "string option" string

record settleResponse =
  sr_success :: bool
  sr_error :: "string option"
  sr_transaction :: "string option"
  sr_transactionId :: "string option"
  sr_transactionHash :: "string option"

text \<open>The \<^verbatim>\<open>catch\<close> around the whole handler: it answers, and releases nothing.\<close>

definition outer_catch :: "string \<Rightarrow> response" where
  "outer_catch msg =
     (if js_includes msg ''AlreadyMinted'' then Response 400 ''Some recipients have already minted''
      else if js_includes msg ''MaxMintCountExceeded'' then Response 400 ''Maximum mint count exceeded''
      else Response 500 ''Failed to execute mint'')"

text \<open>
  \<^verbatim>\<open>if (capacityReserved) { await tokenCapacityManager.releaseCapacity(...) }\<close>
  followed by \<^verbatim>\<open>return res.status(...).json(...)\<close>; a rejection of the release would
  reach the outer \<^verbatim>\<open>catch\<close>.
\<close>

definition release_then ::
  "string option \<Rightarrow> redis \<Rightarrow> bool \<Rightarrow> string \<Rightarrow> int \<Rightarrow> response \<Rightarrow> redis \<times> event list \<times> response" where
  "release_then redisUrl r capacityReserved t n resp =
     (if capacityReserved then
        (case releaseCapacity redisUrl r t n of
           (Thrown e, r1) \<Rightarrow>
             (r1, [EvRelease t n, EvRespond (status_of (outer_catch e))], outer_catch e)
         | (Returned u, r1) \<Rightarrow> (r1, [EvRelease t n, EvRespond (status_of resp)], resp))
      else (r, [EvRespond (status_of resp)], resp))"

text \<open>The checks on \<^verbatim>\<open>settleResponse\<close> after the settle \<^verbatim>\<open>try\<close> block, and Step 7.\<close>

definition after_settle ::
  "string option \<Rightarrow> redis \<Rightarrow> bool \<Rightarrow> string \<Rightarrow> int \<Rightarrow> settleResponse \<Rightarrow>
     redis \<times> event list \<times> response" where
  "after_settle redisUrl r capacityReserved t n sr =
     (if \<not> sr_success sr \<or> truthy (sr_error sr) then
        release_then redisUrl r capacityReserved t n (Response 402 ''Payment settlement failed'')
      else if \<not> truthy (sr_transaction sr) \<and> \<not> truthy (sr_transactionId sr)
              \<and> \<not> truthy (sr_transactionHash sr) then
        release_then redisUrl r capacityReserved t n (Response 500 ''Invalid settlement response'')
      else
        release_then redisUrl r capacityReserved t n (Response 200 ''''))"

definition settle_error_response :: "string option \<Rightarrow> response" where
  "settle_error_response errorReason =
     (if errorReason = Some ''mempool_capacity_exceeded'' then
        Response 400 ''Payment settlement failed''
      else if errorReason = Some ''chain_query_failed'' then
        Response 503 ''Payment settlement failed''
      else Response 500 ''Failed to settle payment with facilitator'')"

definition reserve_settle_release ::
  "string option \<Rightarrow> redis \<Rightarrow> string \<Rightarrow> int \<Rightarrow> settle_outcome \<Rightarrow> redis \<times> event list \<times> response" where
  "reserve_settle_release redisUrl r t n settle =
     (case reserveCapacity redisUrl r t n of
        (Thrown e, r1) \<Rightarrow>
          (r1, [EvReserve t n, EvRespond 503], Response 503 ''Failed to reserve mint capacity'')
      | (Returned u, r1) \<Rightarrow>
          (let capacityReserved = True in
           case (case settle of
                   SettleRejected errorReason msg \<Rightarrow>
                     release_then redisUrl r1 capacityReserved t n
                       (settle_error_response errorReason)
                 | SettleResolved tx \<Rightarrow>
                     after_settle redisUrl r1 capacityReserved t n
                       \<lparr>sr_success = True, sr_error = None,
                        sr_transaction = Some (if truthy tx then the tx else ''''),
                        sr_transactionId = None, sr_transactionHash = None\<rparr>)
           of (r2, ev, resp) \<Rightarrow> (r2, EvReserve t n # ev, resp)))"

section \<open>Verified properties\<close>

subsection \<open>The pending counter\<close>

lemma execute_works:
  "execute \<lparr>store = s, faults = []\<rparr> fn =
     (Reply (fst (fn s)), \<lparr>store = snd (fn s), faults = []\<rparr>)"
  by (simp add: execute_def pop_fault_def split: prod.splits)

lemma no_faults_redis: "faults r = [] \<Longrightarrow> r = \<lparr>store = store r, faults = []\<rparr>"
  by (cases r) simp

lemma incrementPending_works:
  "ensureConnection url \<Longrightarrow>
   incrementPending url \<lparr>store = s, faults = []\<rparr> t n =
     (Returned (Some (pending_value s t + n)),
      \<lparr>store = s(pending_key t \<mapsto> \<lparr>rval = pending_value s t + n,
                 rttl = Some 3600000\<rparr>), faults = []\<rparr>)"
  by (auto simp: incrementPending_def incrementPending_try_def
      redis_incrby_def redis_expire_def execute_works cmd_incrby_def cmd_expire_ms_def
      pending_value_def split: option.splits)

lemma decrementPending_works:
  "ensureConnection url \<Longrightarrow>
   decrementPending url \<lparr>store = s, faults = []\<rparr> t n =
     (if pending_value s t - n \<le> 0
      then (Returned (Some 0), \<lparr>store = s(pending_key t := None), faults = []\<rparr>)
      else (Returned (Some (pending_value s t - n)),
            \<lparr>store = s(pending_key t \<mapsto>
               \<lparr>rval = pending_value s t - n,
                rttl = (case s (pending_key t) of None \<Rightarrow> None | Some e \<Rightarrow> rttl e)\<rparr>),
             faults = []\<rparr>))"
  by (auto simp: decrementPending_def decrementPending_try_def
      redis_decrby_def redis_del_def execute_works cmd_incrby_def cmd_del_def js_num_def
      pending_value_def Let_def split: option.splits)

lemma reserve_works:
  "ensureConnection url \<Longrightarrow>
   reserveCapacity url \<lparr>store = s, faults = []\<rparr> t n =
     (Returned (),
      \<lparr>store = s(pending_key t \<mapsto> \<lparr>rval = pending_value s t + n,
                 rttl = Some 3600000\<rparr>), faults = []\<rparr>)"
  by (simp add: reserveCapacity_def incrementPending_works)

lemma release_works:
  "ensureConnection url \<Longrightarrow>
   releaseCapacity url \<lparr>store = s, faults = []\<rparr> t n =
     (Returned (),
      \<lparr>store = (if pending_value s t - n \<le> 0 then s(pending_key t := None)
                else s(pending_key t \<mapsto>
                  \<lparr>rval = pending_value s t - n,
                   rttl = (case s (pending_key t) of None \<Rightarrow> None | Some e \<Rightarrow> rttl e)\<rparr>)),
       faults = []\<rparr>)"
  by (simp add: releaseCapacity_def decrementPending_works)

lemma getPendingCount_works:
  "ensureConnection url \<Longrightarrow>
   getPendingCount url \<lparr>store = s, faults = []\<rparr> t =
     (Returned (pending_value s t), \<lparr>store = s, faults = []\<rparr>)"
  by (auto simp: getPendingCount_def redis_get_def execute_works cmd_get_def
      pending_value_def split: option.splits)

text \<open>
  The invariant of a matched history on a working Redis: the counter is the sum of the
  outstanding reservations, and the key is absent when nothing is outstanding.
\<close>

lemma run_ops_matched:
  "ensureConnection url \<Longrightarrow> matched ops out \<Longrightarrow>
   pending_value s t = int (sum_list out) \<Longrightarrow>
   (out = [] \<longrightarrow> s (pending_key t) = None) \<Longrightarrow>
   (\<exists>s'. run_ops url \<lparr>store = s, faults = []\<rparr> t ops = \<lparr>store = s', faults = []\<rparr>
       \<and> s' (pending_key t) = None)"
proof (induction ops arbitrary: s out)
  case Nil
  then show ?case by simp
next
  case (Cons op ops)
  show ?case
  proof (cases op)
    case (Reserve n)
    let ?s1 = "s(pending_key t \<mapsto> \<lparr>rval = pending_value s t + int n, rttl = Some 3600000\<rparr>)"
    have m: "matched ops (n # out)" using Cons.prems(2) Reserve by simp
    have v: "pending_value ?s1 t = int (sum_list (n # out))"
      using Cons.prems(3) by (simp add: pending_value_def)
    have e: "n # out = [] \<longrightarrow> ?s1 (pending_key t) = None" by simp
    from Cons.IH[OF Cons.prems(1) m v e] obtain s' where
      "run_ops url \<lparr>store = ?s1, faults = []\<rparr> t ops = \<lparr>store = s', faults = []\<rparr>"
      "s' (pending_key t) = None" by blast
    then show ?thesis
      using Reserve Cons.prems(1) by (simp only: run_ops.simps reserve_works snd_conv) blast
  next
    case (Release n)
    have mem: "n \<in> set out" and m: "matched ops (remove1 n out)"
      using Cons.prems(2) Release by simp_all
    have sum: "sum_list out = n + sum_list (remove1 n out)"
      using mem sum_list_map_remove1[of n out "\<lambda>x. x"] by simp
    let ?s1 = "(if pending_value s t - int n \<le> 0 then s(pending_key t := None)
                else s(pending_key t \<mapsto>
                  \<lparr>rval = pending_value s t - int n,
                   rttl = (case s (pending_key t) of None \<Rightarrow> None | Some e \<Rightarrow> rttl e)\<rparr>))"
    have v: "pending_value ?s1 t = int (sum_list (remove1 n out))"
      using Cons.prems(3) sum by (auto simp: pending_value_def)
    have e: "remove1 n out = [] \<longrightarrow> ?s1 (pending_key t) = None"
      using Cons.prems(3) sum by auto
    from Cons.IH[OF Cons.prems(1) m v e] obtain s' where
      "run_ops url \<lparr>store = ?s1, faults = []\<rparr> t ops = \<lparr>store = s', faults = []\<rparr>"
      "s' (pending_key t) = None" by blast
    then show ?thesis
      using Release Cons.prems(1) by (simp only: run_ops.simps release_works snd_conv) blast
  qed
qed

text \<open>
  Claim C6. With Redis configured and every command working: \<^verbatim>\<open>decrementPending\<close>
  deletes \<^verbatim>\<open>pending_mint:<token>\<close> and returns \<open>0\<close> whenever the decremented value is
  at most \<open>0\<close>; and after any history of reservations, each released later with the
  same count, started on an absent key, the key is absent again and
  \<^verbatim>\<open>getPendingCount\<close> returns \<open>0\<close>.
\<close>

theorem C6_pending_counter_conserved:
  assumes "ensureConnection url" and "faults r = []"
  shows "(pending_value (store r) t - n \<le> 0 \<longrightarrow>
            fst (decrementPending url r t n) = Returned (Some 0) \<and>
            store (snd (decrementPending url r t n)) (pending_key t) = None) \<and>
         (matched ops [] \<and> store r (pending_key t) = None \<longrightarrow>
            store (run_ops url r t ops) (pending_key t) = None \<and>
            fst (getPendingCount url (run_ops url r t ops) t) = Returned 0)"
proof -
  have r: "r = \<lparr>store = store r, faults = []\<rparr>"
    using assms(2) by (rule no_faults_redis)
  have dec: "pending_value (store r) t - n \<le> 0 \<Longrightarrow>
      decrementPending url r t n =
        (Returned (Some 0), \<lparr>store = (store r)(pending_key t := None), faults = []\<rparr>)"
    using decrementPending_works[OF assms(1), of "store r" t n] r by simp
  have run: "store (run_ops url r t ops) (pending_key t) = None \<and>
      fst (getPendingCount url (run_ops url r t ops) t) = Returned 0"
    if m: "matched ops []" and a: "store r (pending_key t) = None"
  proof -
    have v: "pending_value (store r) t = int (sum_list [])"
      using a by (simp add: pending_value_def)
    from run_ops_matched[OF assms(1) m v] a obtain s' where
      s': "run_ops url \<lparr>store = store r, faults = []\<rparr> t ops = \<lparr>store = s', faults = []\<rparr>"
      "s' (pending_key t) = None" by blast
    then have "run_ops url r t ops = \<lparr>store = s', faults = []\<rparr>" using r by simp
    then show ?thesis
      using s'(2) by (simp add: getPendingCount_works[OF assms(1)] pending_value_def)
  qed
  show ?thesis using dec run by simp
qed

theorem C6_pending_counter_conserved_witness:
  "ensureConnection (Some ''redis://localhost:6379'') \<and>
   matched [Reserve 5, Reserve 3, Release 5, Release 3] [] \<and>
   fst (decrementPending (Some ''redis://localhost:6379'')
          \<lparr>store = Map.empty, faults = []\<rparr> ''0xAA'' 2) = Returned (Some 0) \<and>
   store (run_ops (Some ''redis://localhost:6379'') \<lparr>store = Map.empty, faults = []\<rparr>
            ''0xAA'' [Reserve 5, Reserve 3, Release 5, Release 3]) (pending_key ''0xAA'') = None \<and>
   fst (getPendingCount (Some ''redis://localhost:6379'')
          (run_ops (Some ''redis://localhost:6379'') \<lparr>store = Map.empty, faults = []\<rparr>
             ''0xAA'' [Reserve 5, Reserve 3, Release 5, Release 3]) ''0xAA'') = Returned 0"
  using C6_pending_counter_conserved
    [of "Some ''redis://localhost:6379''" "\<lparr>store = Map.empty, faults = []\<rparr>"
        "''0xAA''" 2 "[Reserve 5, Reserve 3, Release 5, Release 3]"]
  by (simp add: ensureConnection_def pending_value_def)

subsection \<open>Reserve and release in the admission pipeline\<close>

lemmas redis_defs =
  execute_def pop_fault_def cmd_incrby_def cmd_expire_ms_def cmd_del_def cmd_get_def
  cmd_exists_def cmd_ttl_def cmd_set_def redis_incrby_def redis_decrby_def redis_incr_def
  redis_expire_def redis_pexpire_def redis_del_def redis_get_def redis_exists_def
  redis_ttl_def redis_set_px_def ensureConnection_def js_num_def

lemmas pending_defs =
  keyPrefix_def pending_key_def toLowerCase_def incrementPending_try_def incrementPending_def
  decrementPending_try_def decrementPending_def getPendingCount_def reserveCapacity_def
  releaseCapacity_def pending_value_def

lemmas handler_defs =
  truthy_def outer_catch_def release_then_def after_settle_def settle_error_response_def
  reserve_settle_release_def

lemma reserveCapacity_returns: "fst (reserveCapacity url r t n) = Returned ()"
  by (auto simp: reserveCapacity_def incrementPending_def
      split: prod.splits outcome.splits)

lemma releaseCapacity_returns: "fst (releaseCapacity url r t n) = Returned ()"
  by (auto simp: releaseCapacity_def decrementPending_def
      split: prod.splits outcome.splits)

lemma release_then_events:
  "release_then url r True t n resp =
     (snd (releaseCapacity url r t n), [EvRelease t n, EvRespond (status_of resp)], resp)"
  using releaseCapacity_returns[of url r t n]
  by (cases "releaseCapacity url r t n") (simp add: release_then_def)

lemma after_settle_events:
  "\<exists>resp. after_settle url r True t n sr =
     (snd (releaseCapacity url r t n), [EvRelease t n, EvRespond (status_of resp)], resp)"
  by (simp add: after_settle_def release_then_events)

lemma reserve_settle_release_events:
  "\<exists>resp. reserve_settle_release url r t n settle =
     (snd (releaseCapacity url (snd (reserveCapacity url r t n)) t n),
      [EvReserve t n, EvRelease t n, EvRespond (status_of resp)], resp)"
  using reserveCapacity_returns[of url r t n]
  by (cases "reserveCapacity url r t n"; cases settle)
     (auto simp: reserve_settle_release_def release_then_events after_settle_def)

lemma reserve_release_restores:
  assumes "faults r = []"
    and "case store r (pending_key t) of None \<Rightarrow> True | Some e \<Rightarrow> 0 < rval e"
  shows "pending_value (store (snd (releaseCapacity url (snd (reserveCapacity url r t n)) t n))) t
           = pending_value (store r) t \<and>
         (store (snd (releaseCapacity url (snd (reserveCapacity url r t n)) t n)) (pending_key t) = None
            \<longleftrightarrow> store r (pending_key t) = None)"
proof (cases "ensureConnection url")
  case True
  have r: "r = \<lparr>store = store r, faults = []\<rparr>" using assms(1) by (rule no_faults_redis)
  show ?thesis
    using assms(2)
    by (subst (1 2 3) r)
       (auto simp: reserve_works[OF True] release_works[OF True] pending_value_def
          split: option.splits)
next
  case False
  then show ?thesis
    by (simp add: reserveCapacity_def releaseCapacity_def incrementPending_def
        decrementPending_def)
qed

text \<open>
  Claim C1. Once \<^verbatim>\<open>reserveCapacity(token, n)\<close> has completed, every path of the handler
  that answers with a status other than 200 (settle rejection or timeout, a settle
  response with \<^verbatim>\<open>success = false\<close> or an error, a settle response without
  transaction id) calls \<^verbatim>\<open>releaseCapacity\<close> with the same token and count before it
  responds. When the Redis commands work and the key held a positive count or was
  absent, the counter and the presence of the key are as before the reservation.
\<close>

theorem C1_release_before_response:
  "(case reserve_settle_release url r t n settle of
      (r', evs, resp) \<Rightarrow>
        (status_of resp \<noteq> 200 \<longrightarrow>
           evs = [EvReserve t n, EvRelease t n, EvRespond (status_of resp)]) \<and>
        (faults r = [] \<and> (case store r (pending_key t) of None \<Rightarrow> True | Some e \<Rightarrow> 0 < rval e) \<longrightarrow>
           pending_value (store r') t = pending_value (store r) t \<and>
           (store r' (pending_key t) = None \<longleftrightarrow> store r (pending_key t) = None))) \<and>
   (case after_settle url r1 True t n sr of
      (r', evs, resp) \<Rightarrow>
        (status_of resp \<noteq> 200 \<longrightarrow> evs = [EvRelease t n, EvRespond (status_of resp)]))"
proof -
  obtain resp where a:
    "reserve_settle_release url r t n settle =
       (snd (releaseCapacity url (snd (reserveCapacity url r t n)) t n),
        [EvReserve t n, EvRelease t n, EvRespond (status_of resp)], resp)"
    using reserve_settle_release_events by blast
  obtain resp' where b:
    "after_settle url r1 True t n sr =
       (snd (releaseCapacity url r1 t n), [EvRelease t n, EvRespond (status_of resp')], resp')"
    using after_settle_events by blast
  show ?thesis
    unfolding a b using reserve_release_restores[of r t url n] by simp
qed

theorem C1_release_before_response_witness:
  "reserve_settle_release (Some ''redis://localhost:6379'')
      \<lparr>store = [pending_key ''0xAA'' \<mapsto> \<lparr>rval = 7, rttl = Some 1000\<rparr>], faults = []\<rparr>
      ''0xAA'' 3 (SettleRejected None ''Batch settle timed out after 180000ms'')
    = (\<lparr>store = [pending_key ''0xAA'' \<mapsto> \<lparr>rval = 7, rttl = Some 3600000\<rparr>], faults = []\<rparr>,
       [EvReserve ''0xAA'' 3, EvRelease ''0xAA'' 3, EvRespond 500],
       Response 500 ''Failed to settle payment with facilitator'') \<and>
   after_settle (Some ''redis://localhost:6379'')
      \<lparr>store = [pending_key ''0xAA'' \<mapsto> \<lparr>rval = 10, rttl = Some 3600000\<rparr>], faults = []\<rparr>
      True ''0xAA'' 3
      \<lparr>sr_success = True, sr_error = None, sr_transaction = Some '''',
       sr_transactionId = None, sr_transactionHash = None\<rparr>
    = (\<lparr>store = [pending_key ''0xAA'' \<mapsto> \<lparr>rval = 7, rttl = Some 3600000\<rparr>], faults = []\<rparr>,
       [EvRelease ''0xAA'' 3, EvRespond 500], Response 500 ''Invalid settlement response'')"
  using C1_release_before_response
    [where url = "Some ''redis://localhost:6379''"
       and r = "\<lparr>store = [pending_key ''0xAA'' \<mapsto> \<lparr>rval = 7, rttl = Some 1000\<rparr>], faults = []\<rparr>"
       and t = "''0xAA''" and n = 3
       and settle = "SettleRejected None ''Batch settle timed out after 180000ms''"
       and ?r1.0 = "\<lparr>store = [pending_key ''0xAA'' \<mapsto> \<lparr>rval = 10, rttl = Some 3600000\<rparr>], faults = []\<rparr>"
       and sr = "\<lparr>sr_success = True, sr_error = None, sr_transaction = Some '''',
          sr_transactionId = None, sr_transactionHash = None\<rparr>"]
  by (simp add: redis_defs pending_defs handler_defs)

subsection \<open>Reserve and release under Redis failures\<close>

lemma unconfigured_noop:
  "\<not> ensureConnection url \<Longrightarrow>
   incrementPending url r t n = (Returned (Some 0), r) \<and>
   decrementPending url r t n = (Returned (Some 0), r) \<and>
   snd (reserveCapacity url r t n) = r \<and> snd (releaseCapacity url r t n) = r"
  by (simp add: incrementPending_def decrementPending_def reserveCapacity_def
      releaseCapacity_def)

lemma first_command_throws_noop:
  "ensureConnection url \<Longrightarrow> faults r = CmdThrows # fs \<Longrightarrow>
   fst (incrementPending url r t n) = Returned (Some 0) \<and>
   fst (decrementPending url r t n) = Returned (Some 0) \<and>
   store (snd (reserveCapacity url r t n)) = store r \<and>
   store (snd (releaseCapacity url r t n)) = store r"
  by (simp add: incrementPending_def decrementPending_def reserveCapacity_def
      releaseCapacity_def incrementPending_try_def decrementPending_try_def
      redis_incrby_def redis_decrby_def execute_def pop_fault_def)

lemma no_connection_noop:
  "ensureConnection url \<Longrightarrow> faults r = NoConn # NoConn # fs \<Longrightarrow>
   fst (incrementPending url r t n) = Returned None \<and>
   fst (decrementPending url r t n) = Returned (Some 0) \<and>
   store (snd (reserveCapacity url r t n)) = store r \<and>
   store (snd (releaseCapacity url r t n)) = store r"
  by (simp add: incrementPending_def decrementPending_def reserveCapacity_def
      releaseCapacity_def incrementPending_try_def decrementPending_try_def
      redis_incrby_def redis_decrby_def redis_expire_def redis_del_def execute_def
      pop_fault_def js_num_def)

lemma expire_throws_recorded:
  "ensureConnection url \<Longrightarrow> faults r = Works # CmdThrows # fs \<Longrightarrow>
   fst (incrementPending url r t n) = Returned (Some 0) \<and>
   pending_value (store (snd (incrementPending url r t n))) t = pending_value (store r) t + n"
  by (simp add: incrementPending_def incrementPending_try_def redis_incrby_def
      redis_expire_def execute_def pop_fault_def cmd_incrby_def pending_value_def
      split: option.splits)

lemma reserve_step_not_503:
  "snd (snd (reserve_settle_release url r t n settle))
     \<noteq> Response 503 ''Failed to reserve mint capacity''"
proof -
  obtain r1 where a: "reserveCapacity url r t n = (Returned (), r1)"
    using reserveCapacity_returns[of url r t n] by (cases "reserveCapacity url r t n") simp
  show ?thesis
    by (cases settle)
       (simp_all add: reserve_settle_release_def a after_settle_def release_then_events
          settle_error_response_def)
qed

lemma settles_without_reservation:
  assumes "\<not> ensureConnection url \<or> (\<exists>fs. faults r = CmdThrows # CmdThrows # fs)"
    and "tx \<noteq> []"
  shows "\<exists>r'. reserve_settle_release url r t n (SettleResolved (Some tx)) =
           (r', [EvReserve t n, EvRelease t n, EvRespond 200], Response 200 '''')
         \<and> store r' = store r
         \<and> store (snd (reserveCapacity url r t n)) = store r"
  using assms
  by (auto simp: reserve_settle_release_def reserveCapacity_def releaseCapacity_def
      incrementPending_def decrementPending_def incrementPending_try_def
      decrementPending_try_def redis_incrby_def redis_decrby_def execute_def pop_fault_def
      after_settle_def release_then_def truthy_def)

text \<open>
  Claim C10, as the code has it. \<^verbatim>\<open>reserveCapacity\<close> and \<^verbatim>\<open>releaseCapacity\<close> never
  throw, whatever Redis does, so the handler's 503 answer "Failed to reserve mint
  capacity" is unreachable, and a request whose reservation recorded nothing still goes
  on to settlement. When Redis is not configured, or INCRBY (DECRBY) itself throws,
  \<^verbatim>\<open>incrementPending\<close> (\<^verbatim>\<open>decrementPending\<close>) returns \<open>0\<close> and the keyspace is as
  before; when the pool hands out no connection for both commands of the call the
  keyspace is as before too, and \<^verbatim>\<open>incrementPending\<close> returns \<^verbatim>\<open>null\<close>. When INCRBY
  works and only EXPIRE throws, \<^verbatim>\<open>incrementPending\<close> returns \<open>0\<close> but the increment
  stays recorded.
\<close>

theorem C10_reserve_release_never_throw:
  "fst (reserveCapacity url r t n) = Returned () \<and>
   fst (releaseCapacity url r t n) = Returned () \<and>
   snd (snd (reserve_settle_release url r t n settle))
     \<noteq> Response 503 ''Failed to reserve mint capacity'' \<and>
   (\<not> ensureConnection url \<longrightarrow>
      incrementPending url r t n = (Returned (Some 0), r) \<and>
      decrementPending url r t n = (Returned (Some 0), r)) \<and>
   (ensureConnection url \<and> faults r = CmdThrows # fs \<longrightarrow>
      fst (incrementPending url r t n) = Returned (Some 0) \<and>
      fst (decrementPending url r t n) = Returned (Some 0) \<and>
      store (snd (reserveCapacity url r t n)) = store r \<and>
      store (snd (releaseCapacity url r t n)) = store r) \<and>
   (ensureConnection url \<and> faults r = NoConn # NoConn # fs \<longrightarrow>
      fst (incrementPending url r t n) = Returned None \<and>
      fst (decrementPending url r t n) = Returned (Some 0) \<and>
      store (snd (reserveCapacity url r t n)) = store r \<and>
      store (snd (releaseCapacity url r t n)) = store r) \<and>
   (ensureConnection url \<and> faults r = Works # CmdThrows # fs \<longrightarrow>
      fst (incrementPending url r t n) = Returned (Some 0) \<and>
      pending_value (store (snd (incrementPending url r t n))) t
        = pending_value (store r) t + n) \<and>
   ((\<not> ensureConnection url \<or> (\<exists>fs'. faults r = CmdThrows # CmdThrows # fs')) \<and> tx \<noteq> [] \<longrightarrow>
      (\<exists>r'. reserve_settle_release url r t n (SettleResolved (Some tx)) =
           (r', [EvReserve t n, EvRelease t n, EvRespond 200], Response 200 '''')
         \<and> store r' = store r))"
  using reserveCapacity_returns[of url r t n] releaseCapacity_returns[of url r t n]
    reserve_step_not_503[of url r t n settle] unconfigured_noop[of url r t n]
    first_command_throws_noop[of url r fs t n] no_connection_noop[of url r fs t n]
    expire_throws_recorded[of url r fs t n] settles_without_reservation[of url r tx t n]
  by blast

theorem C10_reserve_release_never_throw_witness:
  "fst (reserveCapacity (Some ''redis://localhost:6379'')
          \<lparr>store = Map.empty, faults = [CmdThrows, CmdThrows]\<rparr> ''0xAA'' 3) = Returned () \<and>
   store (snd (reserveCapacity (Some ''redis://localhost:6379'')
          \<lparr>store = Map.empty, faults = [CmdThrows, CmdThrows]\<rparr> ''0xAA'' 3)) = Map.empty \<and>
   reserve_settle_release (Some ''redis://localhost:6379'')
      \<lparr>store = Map.empty, faults = [CmdThrows, CmdThrows]\<rparr> ''0xAA'' 3
      (SettleResolved (Some ''0xfeed''))
     = (\<lparr>store = Map.empty, faults = []\<rparr>,
        [EvReserve ''0xAA'' 3, EvRelease ''0xAA'' 3, EvRespond 200], Response 200 '''')"
  using C10_reserve_release_never_throw
    [where url = "Some ''redis://localhost:6379''"
       and r = "\<lparr>store = Map.empty, faults = [CmdThrows, CmdThrows]\<rparr>"
       and t = "''0xAA''" and n = 3 and fs = "[CmdThrows]" and tx = "''0xfeed''"
       and settle = "SettleResolved (Some ''0xfeed'')"]
  by (simp add: redis_defs pending_defs handler_defs)

text \<open>
  The claim as stated fails when INCRBY works and EXPIRE throws: \<^verbatim>\<open>incrementPending\<close>
  catches the error and returns \<open>0\<close>, yet three slots stay reserved.
\<close>

theorem C10_expire_failure_counterexample:
  "fst (incrementPending (Some ''redis://localhost:6379'')
          \<lparr>store = Map.empty, faults = [Works, CmdThrows]\<rparr> ''0xAA'' 3) = Returned (Some 0) \<and>
   pending_value (store (snd (reserveCapacity (Some ''redis://localhost:6379'')
          \<lparr>store = Map.empty, faults = [Works, CmdThrows]\<rparr> ''0xAA'' 3))) ''0xAA'' = 3"
  by (simp add: redis_defs pending_defs)

subsection \<open>The capacity check\<close>

lemmas capacity_defs = getMaxMintCount_def mintCountTTL_def getCurrentMintCount_def checkCapacity_def

lemma bitlen_pow: "bitlen (2 ^ k) = Suc k"
  by (induction k) simp_all

lemma nearest_double_pow: "nearest_double (2 ^ 53) = 2 ^ 53"
  by (simp add: nearest_double_def bitlen_pow Let_def)

lemma nearest_double_exact: "n \<le> 2 ^ 53 \<Longrightarrow> nearest_double n = n"
proof (cases "n = 2 ^ 53")
  case True
  then show ?thesis by (simp only: nearest_double_pow)
next
  case False
  assume "n \<le> 2 ^ 53"
  with False have "n < 2 ^ 53" by simp
  then show ?thesis by (simp add: nearest_double_def)
qed

text \<open>Up to \<open>2\<^sup>5\<^sup>3\<close> in magnitude every integer is a double.\<close>

lemma Number_exact: "\<bar>i\<bar> \<le> 2 ^ 53 \<Longrightarrow> Number i = i"
proof (cases "i < 0")
  case True
  assume a: "\<bar>i\<bar> \<le> 2 ^ 53"
  have "nat (- i) \<le> 2 ^ 53" using a True by (simp add: nat_le_iff)
  then have "nearest_double (nat (- i)) = nat (- i)" by (rule nearest_double_exact)
  then show ?thesis using True by (simp add: Number_def)
next
  case False
  assume a: "\<bar>i\<bar> \<le> 2 ^ 53"
  have "nat i \<le> 2 ^ 53" using a False by (simp add: nat_le_iff)
  then have "nearest_double (nat i) = nat i" by (rule nearest_double_exact)
  then show ?thesis using False by (simp add: Number_def)
qed

lemma js_add_exact: "\<bar>a + b\<bar> \<le> 2 ^ 53 \<Longrightarrow> js_add a b = a + b"
  by (simp add: js_add_def Number_exact)

lemma js_sub_exact: "\<bar>a - b\<bar> \<le> 2 ^ 53 \<Longrightarrow> js_sub a b = a - b"
  by (simp add: js_sub_def Number_exact)

lemma capacity_sum_exact:
  assumes "0 \<le> cur" and "0 \<le> pend" and "0 \<le> n" and "cur + pend + n \<le> 2 ^ 53"
  shows "js_add (js_add cur pend) n = cur + pend + n"
proof -
  have "js_add cur pend = cur + pend" using assms by (intro js_add_exact) simp
  moreover have "js_add (cur + pend) n = cur + pend + n" using assms by (intro js_add_exact) simp
  ultimately show ?thesis by simp
qed

lemma capacity_difference_exact:
  assumes "0 \<le> cur" and "0 \<le> pend" and "0 \<le> mx" and "cur + pend \<le> 2 ^ 53" and "mx \<le> 2 ^ 53"
  shows "js_sub (js_sub mx cur) pend = mx - cur - pend"
proof -
  have "js_sub mx cur = mx - cur" using assms by (intro js_sub_exact) simp
  moreover have "js_sub (mx - cur) pend = mx - cur - pend" using assms by (intro js_sub_exact) simp
  ultimately show ?thesis by simp
qed

lemma checkCapacity_reads:
  assumes "fst (getCurrentMintCount ch mintCache now t) = Returned cur"
    and "fst (getMaxMintCount ch maxCache t) = Returned mx"
    and "fst (getPendingCount url r t) = Returned pend"
  shows "fst (checkCapacity url ch maxCache mintCache r now t n) =
           (if js_add (js_add cur pend) n > mx
            then Inl (CAPACITY_EXCEEDED \<lparr>maxMintCount = mx, currentMintCount = cur,
                        pendingCount = pend, availableSlots = js_sub (js_sub mx cur) pend\<rparr>)
            else Inr \<lparr>maxMintCount = mx, currentMintCount = cur,
                        pendingCount = pend, availableSlots = js_sub (js_sub mx cur) pend\<rparr>)"
  using assms by (auto simp: checkCapacity_def Let_def split: prod.splits)

lemma checkCapacity_exceeded_reads:
  assumes "fst (checkCapacity url ch maxCache mintCache r now t n) = Inl (CAPACITY_EXCEEDED info)"
  shows "\<exists>cur mx pend.
           fst (getCurrentMintCount ch mintCache now t) = Returned cur \<and>
           fst (getMaxMintCount ch maxCache t) = Returned mx \<and>
           fst (getPendingCount url r t) = Returned pend \<and> js_add (js_add cur pend) n > mx"
  using assms
  by (auto simp: checkCapacity_def Let_def split: prod.splits outcome.splits if_splits)

lemma checkCapacity_exact:
  assumes "fst (getCurrentMintCount ch mintCache now t) = Returned cur"
    and "fst (getMaxMintCount ch maxCache t) = Returned mx"
    and "fst (getPendingCount url r t) = Returned pend"
    and "0 \<le> cur" and "0 \<le> pend" and "0 \<le> n" and "0 \<le> mx"
    and "cur + pend + n \<le> 2 ^ 53" and "mx \<le> 2 ^ 53"
  shows "fst (checkCapacity url ch maxCache mintCache r now t n) =
           (if cur + pend + n > mx
            then Inl (CAPACITY_EXCEEDED \<lparr>maxMintCount = mx, currentMintCount = cur,
                        pendingCount = pend, availableSlots = mx - cur - pend\<rparr>)
            else Inr \<lparr>maxMintCount = mx, currentMintCount = cur,
                        pendingCount = pend, availableSlots = mx - cur - pend\<rparr>)"
proof -
  have s: "js_add (js_add cur pend) n = cur + pend + n"
    using assms(4,5,6,8) by (rule capacity_sum_exact)
  have "cur + pend \<le> 2 ^ 53" using assms(6,8) by simp
  then have d: "js_sub (js_sub mx cur) pend = mx - cur - pend"
    using assms(4,5,7,9) by (intro capacity_difference_exact)
  show ?thesis
    unfolding checkCapacity_reads[OF assms(1,2,3)] s d ..
qed

lemma checkCapacity_read_rejected:
  assumes "(\<exists>e. fst (getCurrentMintCount ch mintCache now t) = Thrown e) \<or>
           (\<exists>e. fst (getMaxMintCount ch maxCache t) = Thrown e)"
  shows "\<exists>e. fst (checkCapacity url ch maxCache mintCache r now t n) = Inl (ReadError e)"
  using assms
  by (auto simp: checkCapacity_def split: prod.splits outcome.splits)

lemma chain_reads_Number:
  "(mintCache (toLowerCase t) = None \<and> chain_mintCount ch t = Some c \<longrightarrow>
      fst (getCurrentMintCount ch mintCache now t) = Returned (Number c)) \<and>
   (maxCache (toLowerCase t) = None \<and> chain_maxMintCount ch t = Some m \<longrightarrow>
      fst (getMaxMintCount ch maxCache t) = Returned (Number m))"
  by (simp add: getCurrentMintCount_def getMaxMintCount_def Let_def)

text \<open>
  Claim C2, as the code has it. \<^verbatim>\<open>checkCapacity(token, n)\<close> computes with JavaScript
  numbers: a count read from the chain is converted with \<^verbatim>\<open>Number()\<close>, and the check
  throws the error with code \<^verbatim>\<open>CAPACITY_EXCEEDED\<close> exactly when its three reads succeed
  and \<open>currentMintCount + pendingCount + n > maxMintCount\<close> holds of the sum in double
  arithmetic; \<open>availableSlots\<close> is \<open>maxMintCount - currentMintCount - pendingCount\<close> in
  double arithmetic, in the error and in the value returned. A rejected read rejects the
  check with a read's error. When the counts are not negative and neither
  \<open>currentMintCount + pendingCount + n\<close> nor \<open>maxMintCount\<close> exceeds \<open>2\<^sup>5\<^sup>3\<close>, the sum and
  the difference are the exact ones.
\<close>

theorem C2_checkCapacity:
  "((\<exists>info. fst (checkCapacity url ch maxCache mintCache r now t n) = Inl (CAPACITY_EXCEEDED info))
      \<longleftrightarrow> (\<exists>cur mx pend.
             fst (getCurrentMintCount ch mintCache now t) = Returned cur \<and>
             fst (getMaxMintCount ch maxCache t) = Returned mx \<and>
             fst (getPendingCount url r t) = Returned pend \<and>
             js_add (js_add cur pend) n > mx)) \<and>
   (fst (getCurrentMintCount ch mintCache now t) = Returned cur \<and>
    fst (getMaxMintCount ch maxCache t) = Returned mx \<and>
    fst (getPendingCount url r t) = Returned pend \<longrightarrow>
      fst (checkCapacity url ch maxCache mintCache r now t n) =
        (if js_add (js_add cur pend) n > mx
         then Inl (CAPACITY_EXCEEDED \<lparr>maxMintCount = mx, currentMintCount = cur,
                     pendingCount = pend, availableSlots = js_sub (js_sub mx cur) pend\<rparr>)
         else Inr \<lparr>maxMintCount = mx, currentMintCount = cur,
                     pendingCount = pend, availableSlots = js_sub (js_sub mx cur) pend\<rparr>)) \<and>
   (fst (getCurrentMintCount ch mintCache now t) = Returned cur \<and>
    fst (getMaxMintCount ch maxCache t) = Returned mx \<and>
    fst (getPendingCount url r t) = Returned pend \<and>
    0 \<le> cur \<and> 0 \<le> pend \<and> 0 \<le> n \<and> 0 \<le> mx \<and> cur + pend + n \<le> 2 ^ 53 \<and> mx \<le> 2 ^ 53 \<longrightarrow>
      fst (checkCapacity url ch maxCache mintCache r now t n) =
        (if cur + pend + n > mx
         then Inl (CAPACITY_EXCEEDED \<lparr>maxMintCount = mx, currentMintCount = cur,
                     pendingCount = pend, availableSlots = mx - cur - pend\<rparr>)
         else Inr \<lparr>maxMintCount = mx, currentMintCount = cur,
                     pendingCount = pend, availableSlots = mx - cur - pend\<rparr>)) \<and>
   ((\<exists>e. fst (getCurrentMintCount ch mintCache now t) = Thrown e) \<or>
    (\<exists>e. fst (getMaxMintCount ch maxCache t) = Thrown e) \<longrightarrow>
      (\<exists>e. fst (checkCapacity url ch maxCache mintCache r now t n) = Inl (ReadError e))) \<and>
   (mintCache (toLowerCase t) = None \<and> chain_mintCount ch t = Some c \<longrightarrow>
      fst (getCurrentMintCount ch mintCache now t) = Returned (Number c)) \<and>
   (maxCache (toLowerCase t) = None \<and> chain_maxMintCount ch t = Some m \<longrightarrow>
      fst (getMaxMintCount ch maxCache t) = Returned (Number m))"
proof -
  have "\<exists>info. fst (checkCapacity url ch maxCache mintCache r now t n) = Inl (CAPACITY_EXCEEDED info)"
    if "fst (getCurrentMintCount ch mintCache now t) = Returned c'"
      "fst (getMaxMintCount ch maxCache t) = Returned m'"
      "fst (getPendingCount url r t) = Returned p'" "js_add (js_add c' p') n > m'" for c' m' p'
    using checkCapacity_reads[OF that(1,2,3), of n] that(4) by simp
  then have a:
    "(\<exists>info. fst (checkCapacity url ch maxCache mintCache r now t n) = Inl (CAPACITY_EXCEEDED info))
      \<longleftrightarrow> (\<exists>cur mx pend.
             fst (getCurrentMintCount ch mintCache now t) = Returned cur \<and>
             fst (getMaxMintCount ch maxCache t) = Returned mx \<and>
             fst (getPendingCount url r t) = Returned pend \<and>
             js_add (js_add cur pend) n > mx)"
    using checkCapacity_exceeded_reads[of url ch maxCache mintCache r now t n] by blast
  show ?thesis
    apply (intro conjI)
    subgoal by (rule a)
    subgoal using checkCapacity_reads[of ch mintCache now t cur maxCache mx url r pend n] by blast
    subgoal using checkCapacity_exact[of ch mintCache now t cur maxCache mx url r pend n] by blast
    subgoal using checkCapacity_read_rejected[of ch mintCache now t maxCache url r n] by blast
    subgoal using chain_reads_Number[of mintCache t ch c now maxCache m] by blast
    subgoal using chain_reads_Number[of mintCache t ch c now maxCache m] by blast
    done
qed

text \<open>The scenario of the specification: max 100, current 95, pending 3, five recipients.\<close>

theorem C2_checkCapacity_witness:
  "fst (checkCapacity (Some ''redis://localhost:6379'')
          \<lparr>chain_maxMintCount = (\<lambda>a. None), chain_mintCount = (\<lambda>a. None),
           chain_deploymentDeadline = (\<lambda>a. None)\<rparr>
          [''0xaa'' \<mapsto> 100] [''0xaa'' \<mapsto> (95, 1000)]
          \<lparr>store = [pending_key ''0xAA'' \<mapsto> \<lparr>rval = 3, rttl = None\<rparr>], faults = []\<rparr>
          2000 ''0xAA'' 5)
     = Inl (CAPACITY_EXCEEDED \<lparr>maxMintCount = 100, currentMintCount = 95,
              pendingCount = 3, availableSlots = 2\<rparr>)"
  using C2_checkCapacity
    [where url = "Some ''redis://localhost:6379''"
       and ch = "\<lparr>chain_maxMintCount = (\<lambda>a. None), chain_mintCount = (\<lambda>a. None),
           chain_deploymentDeadline = (\<lambda>a. None)\<rparr>"
       and maxCache = "[''0xaa'' \<mapsto> 100]" and mintCache = "[''0xaa'' \<mapsto> (95, 1000)]"
       and r = "\<lparr>store = [pending_key ''0xAA'' \<mapsto> \<lparr>rval = 3, rttl = None\<rparr>], faults = []\<rparr>"
       and now = 2000 and t = "''0xAA''" and n = 5 and cur = 95 and mx = 100 and pend = 3
       and c = 0 and m = 0]
  by (simp add: redis_defs pending_defs getMaxMintCount_def mintCountTTL_def
      getCurrentMintCount_def js_add_def js_sub_def Number_def nearest_double_def)

text \<open>
  The claim as stated fails from \<open>2\<^sup>5\<^sup>3\<close> on. A token whose contract reports
  \<open>maxMintCount = mintCount = 2\<^sup>5\<^sup>3\<close>, nothing pending, one recipient: the sum
  \<open>2\<^sup>5\<^sup>3 + 0 + 1\<close> exceeds the maximum, but in doubles it rounds to \<open>2\<^sup>5\<^sup>3\<close>, and the
  check passes with \<open>availableSlots = 0\<close>. And a check whose \<^verbatim>\<open>mintCount\<close> read is
  rejected, with nothing cached, neither throws \<^verbatim>\<open>CAPACITY_EXCEEDED\<close> nor returns a
  capacity info: it is rejected with the error of the read.
\<close>

theorem C2_rounding_counterexample:
  "fst (checkCapacity (Some ''redis://localhost:6379'')
          \<lparr>chain_maxMintCount = (\<lambda>a. Some 9007199254740992),
           chain_mintCount = (\<lambda>a. Some 9007199254740992),
           chain_deploymentDeadline = (\<lambda>a. None)\<rparr>
          Map.empty Map.empty \<lparr>store = Map.empty, faults = []\<rparr> 2000 ''0xAA'' 1)
     = Inr \<lparr>maxMintCount = 9007199254740992, currentMintCount = 9007199254740992,
            pendingCount = 0, availableSlots = 0\<rparr> \<and>
   (9007199254740992 :: int) + 0 + 1 > 9007199254740992 \<and>
   fst (checkCapacity (Some ''redis://localhost:6379'')
          \<lparr>chain_maxMintCount = (\<lambda>a. Some 100), chain_mintCount = (\<lambda>a. None),
           chain_deploymentDeadline = (\<lambda>a. None)\<rparr>
          Map.empty Map.empty \<lparr>store = Map.empty, faults = []\<rparr> 2000 ''0xAA'' 1)
     = Inl (ReadError ''mintCount'')"
  by (simp add: redis_defs pending_defs capacity_defs Number_def nearest_double_def
      js_add_def js_sub_def Let_def)

subsection \<open>The abuse detector\<close>

lemma abuse_keys_distinct:
  "WHITELIST_PREFIX @ k \<noteq> BAN_PREFIX @ k'" "WHITELIST_PREFIX @ k \<noteq> REQUEST_COUNT_PREFIX @ k'"
  "BAN_PREFIX @ k \<noteq> REQUEST_COUNT_PREFIX @ k'" "REQUEST_COUNT_PREFIX @ k \<noteq> BAN_PREFIX @ k'"
  "BAN_PREFIX \<noteq> REQUEST_COUNT_PREFIX" "REQUEST_COUNT_PREFIX \<noteq> BAN_PREFIX"
  by (simp_all add: WHITELIST_PREFIX_def BAN_PREFIX_def REQUEST_COUNT_PREFIX_def)

text \<open>What \<^verbatim>\<open>recordRequest\<close> does when Redis is configured and every command works.\<close>

lemma recordRequest_works:
  assumes "ensureConnection url"
  shows "recordRequest cfg url \<lparr>store = s, faults = []\<rparr> ident =
           (fst (recordRequest_spec cfg s ident),
            \<lparr>store = snd (recordRequest_spec cfg s ident), faults = []\<rparr>)"
proof -
  let ?key = "toLowerCase ident"
  have wl: "isWhitelisted url \<lparr>store = s, faults = []\<rparr> ?key =
      (Returned (s (WHITELIST_PREFIX @ ?key) \<noteq> None), \<lparr>store = s, faults = []\<rparr>)"
    using assms
    by (auto simp: isWhitelisted_def redis_exists_def execute_works cmd_exists_def
        reply_value_def split: option.splits)
  have bn: "isBanned url \<lparr>store = s, faults = []\<rparr> ?key =
      (s (BAN_PREFIX @ ?key) \<noteq> None, \<lparr>store = s, faults = []\<rparr>)"
    using assms
    by (auto simp: isBanned_def redis_exists_def execute_works cmd_exists_def
        reply_value_def split: option.splits)
  have ttl: "redis_ttl \<lparr>store = s, faults = []\<rparr> (BAN_PREFIX @ ?key) =
      (Reply (fst (cmd_ttl (BAN_PREFIX @ ?key) s)), \<lparr>store = s, faults = []\<rparr>)"
    by (auto simp: redis_ttl_def execute_works cmd_ttl_def split: option.splits)
  show ?thesis
  proof (cases "s (WHITELIST_PREFIX @ ?key) \<noteq> None")
    case True
    then show ?thesis using assms by (simp add: recordRequest_def recordRequest_try_def recordRequest_spec_def wl Let_def)
  next
    case nwl: False
    show ?thesis
    proof (cases "s (BAN_PREFIX @ ?key) \<noteq> None")
      case True
      then show ?thesis
        using assms nwl
        by (simp add: recordRequest_def recordRequest_try_def recordRequest_spec_def wl bn ttl
            Let_def reply_value_def js_num_def)
    next
      case nbn: False
      show ?thesis
        using assms nwl nbn
        by (cases "s (REQUEST_COUNT_PREFIX @ ?key)")
           (auto simp: recordRequest_def recordRequest_try_def recordRequest_spec_def wl bn Let_def
              reply_value_def js_num_def redis_incr_def redis_pexpire_def execute_works
              cmd_incrby_def cmd_expire_ms_def banIdentifier_def redis_set_px_def cmd_set_def
              allow_def)
    qed
  qed
qed

lemma recordRequest_unconfigured:
  "\<not> ensureConnection url \<Longrightarrow> recordRequest cfg url r ident = (allow, r)"
  by (simp add: recordRequest_def)

text \<open>
  While the pool is shutting down every command resolves with \<^verbatim>\<open>null\<close>: nobody is
  whitelisted or banned, the count is \<^verbatim>\<open>null\<close>, and \<^verbatim>\<open>null > maxRequestsPerWindow\<close>
  compares \<open>0\<close> with the limit.
\<close>

lemma recordRequest_null_replies:
  "ensureConnection url \<Longrightarrow> faults r = NoConn # NoConn # NoConn # fs \<Longrightarrow>
   fst (recordRequest cfg url r ident) =
     (if maxRequestsPerWindow cfg < 0
      then \<lparr>allowed = False,
             reason = Some (RateLimitExceeded (maxRequestsPerWindow cfg) (timeWindowMs cfg))\<rparr>
      else allow)"
  by (simp add: recordRequest_def recordRequest_try_def isWhitelisted_def isBanned_def
      redis_exists_def redis_incr_def execute_def pop_fault_def reply_value_def js_num_def)

lemma recordRequest_whitelist_check_throws:
  "faults r = CmdThrows # fs \<Longrightarrow> fst (recordRequest cfg url r ident) = allow"
  by (simp add: recordRequest_def recordRequest_try_def isWhitelisted_def
      redis_exists_def execute_def pop_fault_def)

lemma recordRequest_third_command_throws:
  "faults r = Works # Works # CmdThrows # fs \<Longrightarrow>
   store r (WHITELIST_PREFIX @ toLowerCase ident) = None \<Longrightarrow>
   fst (recordRequest cfg url r ident) = allow"
  by (simp add: recordRequest_def recordRequest_try_def isWhitelisted_def isBanned_def
      redis_exists_def redis_ttl_def redis_incr_def execute_def pop_fault_def cmd_exists_def
      reply_value_def split: option.splits)

lemma recordRequest_pexpire_throws:
  "faults r = Works # Works # Works # CmdThrows # fs \<Longrightarrow>
   store r (WHITELIST_PREFIX @ toLowerCase ident) = None \<Longrightarrow>
   store r (BAN_PREFIX @ toLowerCase ident) = None \<Longrightarrow>
   store r (REQUEST_COUNT_PREFIX @ toLowerCase ident) = None \<Longrightarrow>
   fst (recordRequest cfg url r ident) = allow"
  by (simp add: recordRequest_def recordRequest_try_def isWhitelisted_def isBanned_def
      redis_exists_def redis_incr_def redis_pexpire_def execute_def pop_fault_def
      cmd_exists_def cmd_incrby_def reply_value_def)

lemma recordRequest_ban_check_throws:
  "ensureConnection url \<Longrightarrow> faults r = [Works, CmdThrows] \<Longrightarrow>
   store r (WHITELIST_PREFIX @ toLowerCase ident) = None \<Longrightarrow>
   store r (REQUEST_COUNT_PREFIX @ toLowerCase ident) = Some e \<Longrightarrow> rval e \<noteq> 0 \<Longrightarrow>
   maxRequestsPerWindow cfg < rval e + 1 \<Longrightarrow>
   \<not> allowed (fst (recordRequest cfg url r ident))"
  by (simp add: recordRequest_def recordRequest_try_def isWhitelisted_def isBanned_def
      redis_exists_def redis_incr_def execute_def pop_fault_def
      cmd_exists_def cmd_incrby_def reply_value_def js_num_def)

lemma recordRequest_ban_write_throws:
  "ensureConnection url \<Longrightarrow> faults r = Works # Works # Works # CmdThrows # fs \<Longrightarrow>
   store r (WHITELIST_PREFIX @ toLowerCase ident) = None \<Longrightarrow>
   store r (BAN_PREFIX @ toLowerCase ident) = None \<Longrightarrow>
   store r (REQUEST_COUNT_PREFIX @ toLowerCase ident) = Some e \<Longrightarrow> rval e \<noteq> 0 \<Longrightarrow>
   maxRequestsPerWindow cfg < rval e + 1 \<Longrightarrow>
   \<not> allowed (fst (recordRequest cfg url r ident)) \<and>
   store (snd (recordRequest cfg url r ident)) (BAN_PREFIX @ toLowerCase ident) = None"
  by (simp add: recordRequest_def recordRequest_try_def isWhitelisted_def isBanned_def
      redis_exists_def redis_incr_def redis_set_px_def execute_def pop_fault_def
      cmd_exists_def cmd_incrby_def reply_value_def js_num_def banIdentifier_def
      abuse_keys_distinct)

text \<open>
  Claim C3, as the code has it. With Redis configured and every command working,
  \<^verbatim>\<open>recordRequest(id)\<close> works on the lowercased identifier: a whitelisted one is
  allowed; otherwise an existing ban key denies with the remaining ban TTL in the
  reason; otherwise the count key is incremented, gets the window TTL exactly when the
  new count is \<open>1\<close>, and a new count above \<^verbatim>\<open>maxRequestsPerWindow\<close> writes the ban key
  with the ban duration and denies; every other request is allowed. The request is
  allowed as well when Redis is not configured, and when the whitelist EXISTS, the TTL,
  the INCR or the PEXPIRE command throws. A throwing ban EXISTS is read as "not banned"
  and a throwing ban SET is swallowed: the request over the limit is still denied. While
  the pool is shutting down, so that the commands resolve with \<^verbatim>\<open>null\<close> without
  running, the request is allowed exactly when \<^verbatim>\<open>maxRequestsPerWindow\<close> is not
  negative.
\<close>

theorem C3_recordRequest:
  "(ensureConnection url \<longrightarrow>
      recordRequest cfg url \<lparr>store = s, faults = []\<rparr> ident =
        (fst (recordRequest_spec cfg s ident),
         \<lparr>store = snd (recordRequest_spec cfg s ident), faults = []\<rparr>)) \<and>
   (\<not> ensureConnection url \<longrightarrow> recordRequest cfg url r ident = (allow, r)) \<and>
   (ensureConnection url \<and> faults r = NoConn # NoConn # NoConn # fs \<longrightarrow>
      fst (recordRequest cfg url r ident) =
        (if maxRequestsPerWindow cfg < 0
         then \<lparr>allowed = False,
                reason = Some (RateLimitExceeded (maxRequestsPerWindow cfg) (timeWindowMs cfg))\<rparr>
         else allow)) \<and>
   (faults r = CmdThrows # fs \<longrightarrow> fst (recordRequest cfg url r ident) = allow) \<and>
   (faults r = Works # Works # CmdThrows # fs \<and>
    store r (WHITELIST_PREFIX @ toLowerCase ident) = None \<longrightarrow>
      fst (recordRequest cfg url r ident) = allow) \<and>
   (faults r = Works # Works # Works # CmdThrows # fs \<and>
    store r (WHITELIST_PREFIX @ toLowerCase ident) = None \<and>
    store r (BAN_PREFIX @ toLowerCase ident) = None \<and>
    store r (REQUEST_COUNT_PREFIX @ toLowerCase ident) = None \<longrightarrow>
      fst (recordRequest cfg url r ident) = allow) \<and>
   (ensureConnection url \<and> faults r = [Works, CmdThrows] \<and>
    store r (WHITELIST_PREFIX @ toLowerCase ident) = None \<and>
    store r (REQUEST_COUNT_PREFIX @ toLowerCase ident) = Some e \<and> rval e \<noteq> 0 \<and>
    maxRequestsPerWindow cfg < rval e + 1 \<longrightarrow>
      \<not> allowed (fst (recordRequest cfg url r ident))) \<and>
   (ensureConnection url \<and> faults r = Works # Works # Works # CmdThrows # fs \<and>
    store r (WHITELIST_PREFIX @ toLowerCase ident) = None \<and>
    store r (BAN_PREFIX @ toLowerCase ident) = None \<and>
    store r (REQUEST_COUNT_PREFIX @ toLowerCase ident) = Some e \<and> rval e \<noteq> 0 \<and>
    maxRequestsPerWindow cfg < rval e + 1 \<longrightarrow>
      \<not> allowed (fst (recordRequest cfg url r ident)) \<and>
      store (snd (recordRequest cfg url r ident)) (BAN_PREFIX @ toLowerCase ident) = None)"
  apply (intro conjI)
  subgoal using recordRequest_works[of url cfg s ident] by simp
  subgoal using recordRequest_unconfigured[of url cfg r ident] by simp
  subgoal using recordRequest_null_replies[of url r fs cfg ident] by blast
  subgoal using recordRequest_whitelist_check_throws[of r fs cfg url ident] by blast
  subgoal using recordRequest_third_command_throws[of r fs ident cfg url] by blast
  subgoal using recordRequest_pexpire_throws[of r fs ident cfg url] by blast
  subgoal using recordRequest_ban_check_throws[of url r ident e cfg] by blast
  subgoal using recordRequest_ban_write_throws[of url r fs ident e cfg] by blast
  done

text \<open>
  The eleventh request of a window with the default limit of ten: the count goes to
  eleven, the ban key is written for an hour and the request is denied.
\<close>

theorem C3_recordRequest_witness:
  "recordRequest \<lparr>maxRequestsPerWindow = 10, timeWindowMs = 3000, banDurationMs = 3600000\<rparr>
      (Some ''redis://localhost:6379'')
      \<lparr>store = [''abuse:count:ip:10.0.0.1'' \<mapsto> \<lparr>rval = 10, rttl = Some 1200\<rparr>], faults = []\<rparr>
      ''ip:10.0.0.1''
    = (\<lparr>allowed = False, reason = Some (RateLimitExceeded 10 3000)\<rparr>,
       \<lparr>store = [''abuse:count:ip:10.0.0.1'' \<mapsto> \<lparr>rval = 11, rttl = Some 1200\<rparr>,
                 ''abuse:ban:ip:10.0.0.1'' \<mapsto> \<lparr>rval = 1, rttl = Some 3600000\<rparr>],
        faults = []\<rparr>)"
  using C3_recordRequest
    [where url = "Some ''redis://localhost:6379''"
       and cfg = "\<lparr>maxRequestsPerWindow = 10, timeWindowMs = 3000, banDurationMs = 3600000\<rparr>"
       and s = "[''abuse:count:ip:10.0.0.1'' \<mapsto> \<lparr>rval = 10, rttl = Some 1200\<rparr>]"
       and ident = "''ip:10.0.0.1''"
       and r = "\<lparr>store = Map.empty, faults = []\<rparr>" and fs = "[]"
       and e = "\<lparr>rval = 10, rttl = Some 1200\<rparr>"]
  by (simp add: ensureConnection_def recordRequest_spec_def toLowerCase_def Let_def
      REQUEST_COUNT_PREFIX_def BAN_PREFIX_def WHITELIST_PREFIX_def)

text \<open>
  The claim as stated fails in two ways. Here the SET of the ban key throws: a Redis
  command has errored, and the request is denied all the same. And with the limit
  configured as \<open>-1\<close> (\<^verbatim>\<open>ABUSE_MAX_REQUESTS\<close>), a pool that is shutting down answers
  every command with \<^verbatim>\<open>null\<close>: Redis is unavailable, and the request is denied.
\<close>

theorem C3_ban_write_error_counterexample:
  "\<not> allowed (fst (recordRequest
       \<lparr>maxRequestsPerWindow = 10, timeWindowMs = 3000, banDurationMs = 3600000\<rparr>
       (Some ''redis://localhost:6379'')
       \<lparr>store = [''abuse:count:ip:10.0.0.1'' \<mapsto> \<lparr>rval = 10, rttl = Some 1200\<rparr>],
        faults = [Works, Works, Works, CmdThrows]\<rparr>
       ''ip:10.0.0.1'')) \<and>
   \<not> allowed (fst (recordRequest
       \<lparr>maxRequestsPerWindow = - 1, timeWindowMs = 3000, banDurationMs = 3600000\<rparr>
       (Some ''redis://localhost:6379'')
       \<lparr>store = Map.empty, faults = [NoConn, NoConn, NoConn, NoConn]\<rparr>
       ''ip:10.0.0.1''))"
  using recordRequest_ban_write_throws
    [where url = "Some ''redis://localhost:6379''"
       and cfg = "\<lparr>maxRequestsPerWindow = 10, timeWindowMs = 3000, banDurationMs = 3600000\<rparr>"
       and r = "\<lparr>store = [''abuse:count:ip:10.0.0.1'' \<mapsto> \<lparr>rval = 10, rttl = Some 1200\<rparr>],
                 faults = [Works, Works, Works, CmdThrows]\<rparr>"
       and fs = "[]" and ident = "''ip:10.0.0.1''" and e = "\<lparr>rval = 10, rttl = Some 1200\<rparr>"]
    recordRequest_null_replies
    [where url = "Some ''redis://localhost:6379''"
       and cfg = "\<lparr>maxRequestsPerWindow = - 1, timeWindowMs = 3000, banDurationMs = 3600000\<rparr>"
       and r = "\<lparr>store = Map.empty, faults = [NoConn, NoConn, NoConn, NoConn]\<rparr>"
       and fs = "[NoConn]" and ident = "''ip:10.0.0.1''"]
  by (simp add: ensureConnection_def toLowerCase_def
      REQUEST_COUNT_PREFIX_def BAN_PREFIX_def WHITELIST_PREFIX_def)

subsection \<open>The deadline gate\<close>

lemma expired_identifier:
  "createIdentifier None (Some (clientIP @ '':expired'')) = ''ip:'' @ clientIP @ '':expired''"
  by (simp add: createIdentifier_def truthy_def)

lemma isTokenExpired_strict:
  "fst (getDeploymentDeadline ch cache t) = Returned d \<Longrightarrow>
   fst (isTokenExpired ch cache now t) = Returned (now > d)"
  by (cases "getDeploymentDeadline ch cache t") (simp add: isTokenExpired_def)

lemma deadline_gate_unreadable:
  "fst (getDeploymentDeadline ch cache t) = Thrown e \<Longrightarrow>
   fst (deadline_gate cfg url ch cache r now ip t) = None \<and>
   snd (snd (deadline_gate cfg url ch cache r now ip t)) = r"
  by (cases "getDeploymentDeadline ch cache t") (simp add: deadline_gate_def)

lemma deadline_gate_open:
  "fst (getDeploymentDeadline ch cache t) = Returned d \<Longrightarrow> now < d \<Longrightarrow>
   fst (deadline_gate cfg url ch cache r now ip t) = None \<and>
   snd (snd (deadline_gate cfg url ch cache r now ip t)) = r"
  by (cases "getDeploymentDeadline ch cache t") (simp add: deadline_gate_def)

lemma deadline_gate_closed:
  "fst (getDeploymentDeadline ch cache t) = Returned d \<Longrightarrow> d \<le> now \<Longrightarrow>
   fst (deadline_gate cfg url ch cache r now ip t) =
     Some (if \<not> allowed (fst (recordRequest cfg url r (''ip:'' @ ip @ '':expired'')))
           then expired_minimal t else expired_remaining t (d - now)) \<and>
   snd (snd (deadline_gate cfg url ch cache r now ip t)) =
     snd (recordRequest cfg url r (''ip:'' @ ip @ '':expired''))"
  by (cases "getDeploymentDeadline ch cache t";
      cases "recordRequest cfg url r (''ip:'' @ ip @ '':expired'')")
     (simp add: deadline_gate_def expired_identifier)

lemma deadline_gate_status:
  assumes "fst (deadline_gate cfg url ch cache r now ip t) = Some resp"
  shows "status resp = 410"
proof (cases "fst (getDeploymentDeadline ch cache t)")
  case (Returned d)
  show ?thesis
  proof (cases "d \<le> now")
    case True
    from deadline_gate_closed[OF Returned True, of cfg url r ip] assms show ?thesis
      by (auto simp: expired_minimal_def expired_remaining_def split: if_splits)
  next
    case False
    then have "now < d" by simp
    from deadline_gate_open[OF Returned this, of cfg url r ip] assms show ?thesis by simp
  qed
next
  case (Thrown e)
  from deadline_gate_unreadable[OF Thrown, of cfg url r now ip] assms show ?thesis by simp
qed

lemma deadline_gate_fires_iff:
  "(\<exists>resp. fst (deadline_gate cfg url ch cache r now ip t) = Some resp) \<longleftrightarrow>
   (\<exists>d. fst (getDeploymentDeadline ch cache t) = Returned d \<and> d \<le> now)"
proof (cases "fst (getDeploymentDeadline ch cache t)")
  case (Returned d)
  show ?thesis
  proof (cases "d \<le> now")
    case True
    from deadline_gate_closed[OF Returned True, of cfg url r ip] Returned True
    show ?thesis by simp
  next
    case False
    then have "now < d" by simp
    from deadline_gate_open[OF Returned this, of cfg url r ip] Returned False
    show ?thesis by simp
  qed
next
  case (Thrown e)
  from deadline_gate_unreadable[OF Thrown, of cfg url r now ip] Thrown show ?thesis by simp
qed

text \<open>
  Claim C7, as the code has it. \<^verbatim>\<open>isTokenExpired\<close> is \<open>now > deadline\<close>. The deadline
  gate of POST /mint answers 410 exactly when the deadline can be read and
  \<open>deadline - now \<le> 0\<close>, that is \<open>now \<ge> deadline\<close>: it records one abuse tick against
  \<^verbatim>\<open>ip:<ip>:expired\<close> and answers with the minimal body if that record denies, with the
  remaining-time body otherwise. For \<open>now < deadline\<close>, and when the deadline cannot be
  read, the gate answers nothing and records nothing.
\<close>

theorem C7_deadline_gate:
  "(fst (getDeploymentDeadline ch cache t) = Returned d \<longrightarrow>
      fst (isTokenExpired ch cache now t) = Returned (now > d)) \<and>
   ((\<exists>resp. fst (deadline_gate cfg url ch cache r now ip t) = Some resp) \<longleftrightarrow>
      (\<exists>d'. fst (getDeploymentDeadline ch cache t) = Returned d' \<and> d' \<le> now)) \<and>
   (fst (deadline_gate cfg url ch cache r now ip t) = Some resp \<longrightarrow> status resp = 410) \<and>
   (fst (getDeploymentDeadline ch cache t) = Returned d \<and> d \<le> now \<longrightarrow>
      fst (deadline_gate cfg url ch cache r now ip t) =
        Some (if \<not> allowed (fst (recordRequest cfg url r (''ip:'' @ ip @ '':expired'')))
              then expired_minimal t else expired_remaining t (d - now)) \<and>
      snd (snd (deadline_gate cfg url ch cache r now ip t)) =
        snd (recordRequest cfg url r (''ip:'' @ ip @ '':expired''))) \<and>
   (fst (getDeploymentDeadline ch cache t) = Returned d \<and> now < d \<longrightarrow>
      fst (deadline_gate cfg url ch cache r now ip t) = None \<and>
      snd (snd (deadline_gate cfg url ch cache r now ip t)) = r) \<and>
   (fst (getDeploymentDeadline ch cache t) = Thrown e \<longrightarrow>
      fst (deadline_gate cfg url ch cache r now ip t) = None \<and>
      snd (snd (deadline_gate cfg url ch cache r now ip t)) = r)"
  apply (intro conjI)
  subgoal using isTokenExpired_strict[of ch cache t d now] by blast
  subgoal by (rule deadline_gate_fires_iff)
  subgoal using deadline_gate_status[of cfg url ch cache r now ip t resp] by blast
  subgoal using deadline_gate_closed[of ch cache t d now cfg url r ip] by blast
  subgoal using deadline_gate_open[of ch cache t d now cfg url r ip] by blast
  subgoal using deadline_gate_unreadable[of ch cache t e cfg url r now ip] by blast
  done

text \<open>One second after the deadline, Redis not configured: 410 with the remaining-time body.\<close>

theorem C7_deadline_gate_witness:
  "fst (isTokenExpired
         \<lparr>chain_maxMintCount = (\<lambda>a. None), chain_mintCount = (\<lambda>a. None),
          chain_deploymentDeadline = (\<lambda>a. Some 1000)\<rparr> Map.empty 1001 ''0xAA'') = Returned True \<and>
   fst (deadline_gate \<lparr>maxRequestsPerWindow = 10, timeWindowMs = 3000, banDurationMs = 3600000\<rparr>
         None
         \<lparr>chain_maxMintCount = (\<lambda>a. None), chain_mintCount = (\<lambda>a. None),
          chain_deploymentDeadline = (\<lambda>a. Some 1000)\<rparr>
         Map.empty \<lparr>store = Map.empty, faults = []\<rparr> 1001 ''10.0.0.1'' ''0xAA'')
     = Some (expired_remaining ''0xAA'' (- 1))"
  using C7_deadline_gate
    [where ch = "\<lparr>chain_maxMintCount = (\<lambda>a. None), chain_mintCount = (\<lambda>a. None),
          chain_deploymentDeadline = (\<lambda>a. Some 1000)\<rparr>"
       and cache = Map.empty and t = "''0xAA''" and d = 1000 and now = 1001
       and cfg = "\<lparr>maxRequestsPerWindow = 10, timeWindowMs = 3000, banDurationMs = 3600000\<rparr>"
       and url = None and r = "\<lparr>store = Map.empty, faults = []\<rparr>" and ip = "''10.0.0.1''"]
  by (simp add: getDeploymentDeadline_def toLowerCase_def recordRequest_def
      ensureConnection_def allow_def)

text \<open>
  The claim as stated fails at \<open>now = deadline\<close>: the token is not expired for
  \<^verbatim>\<open>isTokenExpired\<close>, and the gate answers 410.
\<close>

theorem C7_gate_at_deadline_counterexample:
  "fst (isTokenExpired
         \<lparr>chain_maxMintCount = (\<lambda>a. None), chain_mintCount = (\<lambda>a. None),
          chain_deploymentDeadline = (\<lambda>a. Some 1000)\<rparr> Map.empty 1000 ''0xAA'') = Returned False \<and>
   map_option status
     (fst (deadline_gate \<lparr>maxRequestsPerWindow = 10, timeWindowMs = 3000, banDurationMs = 3600000\<rparr>
         (Some ''redis://localhost:6379'')
         \<lparr>chain_maxMintCount = (\<lambda>a. None), chain_mintCount = (\<lambda>a. None),
          chain_deploymentDeadline = (\<lambda>a. Some 1000)\<rparr>
         Map.empty \<lparr>store = Map.empty, faults = []\<rparr> 1000 ''10.0.0.1'' ''0xAA''))
     = Some 410"
proof -
  let ?ch = "\<lparr>chain_maxMintCount = (\<lambda>a. None), chain_mintCount = (\<lambda>a. None),
          chain_deploymentDeadline = (\<lambda>a. Some 1000)\<rparr>"
  have d: "fst (getDeploymentDeadline ?ch Map.empty ''0xAA'') = Returned 1000"
    by (simp add: getDeploymentDeadline_def)
  have le: "(1000::int) \<le> 1000" by simp
  show ?thesis
    using isTokenExpired_strict[OF d, of 1000] deadline_gate_closed[OF d le]
    by (simp add: expired_minimal_def expired_remaining_def)
qed

subsection \<open>The 402 challenge\<close>

lemma validate_body_status: "validate_body req = Inl resp \<Longrightarrow> status resp = 400"
  by (auto simp: validate_body_def Let_def split: if_splits option.splits)

lemma validate_body_token:
  "validate_body req = Inr (t, rs) \<Longrightarrow>
   t = trim (the (req_tokenAddress req)) \<and> t \<noteq> [] \<and>
   req_recipients req = Some rs \<and> 1 \<le> length rs \<and> length rs \<le> 100"
  by (cases rs) (auto simp: validate_body_def Let_def truthy_def split: if_splits option.splits)

lemma mint_front_402:
  assumes "\<not> truthy (req_paymentHeader req)"
    and "mint_front env req = Responded resp" and "status resp = 402"
  shows "resp = challenge_response (trim (the (req_tokenAddress req)))"
proof (cases "validate_body req")
  case (Inl bad)
  then show ?thesis
    using assms(2,3) validate_body_status[OF Inl]
    by (auto simp: mint_front_def split: if_splits)
next
  case (Inr ok)
  obtain t rs where ok: "ok = (t, rs)" by (cases ok)
  have t: "t = trim (the (req_tokenAddress req))"
    using validate_body_token[of req t rs] Inr ok by simp
  obtain g cache1 r1 where g:
    "deadline_gate (env_cfg env) (env_redisUrl env) (env_chain env) (env_deadlineCache env)
       (env_redis env) (env_now env) (req_clientIP req) t = (g, cache1, r1)"
    by (metis prod_cases3)
  show ?thesis
  proof (cases g)
    case None
    then show ?thesis
      using assms Inr ok g t by (auto simp: mint_front_def split: if_splits)
  next
    case (Some gone)
    have "status gone = 410"
      using deadline_gate_status[of "env_cfg env" "env_redisUrl env" "env_chain env"
          "env_deadlineCache env" "env_redis env" "env_now env" "req_clientIP req" t gone]
        g Some by simp
    then show ?thesis
      using assms Inr ok g Some by (auto simp: mint_front_def split: if_splits)
  qed
qed

lemma mint_front_challenge:
  assumes "\<not> (env_requireWhitelist env \<and> \<not> env_isWhitelisted env)"
    and "validate_body req = Inr (t, rs)"
    and "fst (deadline_gate (env_cfg env) (env_redisUrl env) (env_chain env)
            (env_deadlineCache env) (env_redis env) (env_now env) (req_clientIP req) t) = None"
    and "\<not> truthy (req_paymentHeader req)"
  shows "mint_front env req = Responded (challenge_response t)"
  using assms by (auto simp: mint_front_def split: prod.splits option.splits)

text \<open>
  Claim C9. Let two runs of the handler, in whatever environments (clock, caches, chain
  answers, Redis, configuration), receive the same request without \<^verbatim>\<open>X-Payment\<close>
  header and both answer 402. Then the two responses are equal, status, headers
  (\<^verbatim>\<open>X-Payment-Options\<close>) and JSON body: both are the challenge built from the trimmed
  token address alone. A request with a valid body that the whitelist and deadline
  gates let through does get that challenge.
\<close>

theorem C9_challenge_deterministic:
  "(\<not> truthy (req_paymentHeader req) \<and>
    mint_front env1 req = Responded resp1 \<and> status resp1 = 402 \<and>
    mint_front env2 req = Responded resp2 \<and> status resp2 = 402 \<longrightarrow>
      resp1 = resp2 \<and> headers resp1 = headers resp2 \<and> body resp1 = body resp2 \<and>
      resp1 = challenge_response (trim (the (req_tokenAddress req)))) \<and>
   (\<not> (env_requireWhitelist env1 \<and> \<not> env_isWhitelisted env1) \<and>
    validate_body req = Inr (t, rs) \<and>
    fst (deadline_gate (env_cfg env1) (env_redisUrl env1) (env_chain env1)
           (env_deadlineCache env1) (env_redis env1) (env_now env1) (req_clientIP req) t) = None \<and>
    \<not> truthy (req_paymentHeader req) \<longrightarrow>
      mint_front env1 req = Responded (challenge_response t))"
  using mint_front_402[of req env1 resp1] mint_front_402[of req env2 resp2]
    mint_front_challenge[of env1 req t rs]
  by blast

text \<open>
  Two runs on the request of scenario 1: one before the deadline on an empty cache, one
  a thousand seconds later with the deadline cached, an unreadable chain and another
  Redis.
\<close>

theorem C9_challenge_deterministic_witness:
  "mint_front
     \<lparr>env_cfg = \<lparr>maxRequestsPerWindow = 10, timeWindowMs = 3000, banDurationMs = 3600000\<rparr>,
      env_redisUrl = Some ''redis://localhost:6379'',
      env_chain = \<lparr>chain_maxMintCount = (\<lambda>a. None), chain_mintCount = (\<lambda>a. None),
                   chain_deploymentDeadline = (\<lambda>a. Some 5000)\<rparr>,
      env_deadlineCache = Map.empty, env_redis = \<lparr>store = Map.empty, faults = []\<rparr>,
      env_now = 1000, env_requireWhitelist = False, env_isWhitelisted = False\<rparr>
     \<lparr>req_tokenAddress = Some '' 0xAA '', req_recipients = Some [''0x01''],
      req_paymentHeader = None, req_clientIP = ''10.0.0.1''\<rparr>
    = Responded (challenge_response ''0xAA'') \<and>
   mint_front
     \<lparr>env_cfg = \<lparr>maxRequestsPerWindow = 5, timeWindowMs = 1000, banDurationMs = 60000\<rparr>,
      env_redisUrl = None,
      env_chain = \<lparr>chain_maxMintCount = (\<lambda>a. None), chain_mintCount = (\<lambda>a. None),
                   chain_deploymentDeadline = (\<lambda>a. None)\<rparr>,
      env_deadlineCache = [''0xaa'' \<mapsto> 5000],
      env_redis = \<lparr>store = Map.empty, faults = [NoConn]\<rparr>,
      env_now = 2000, env_requireWhitelist = False, env_isWhitelisted = False\<rparr>
     \<lparr>req_tokenAddress = Some '' 0xAA '', req_recipients = Some [''0x01''],
      req_paymentHeader = None, req_clientIP = ''10.0.0.1''\<rparr>
    = Responded (challenge_response ''0xAA'') \<and>
   status (challenge_response ''0xAA'') = 402 \<and>
   JString (decimal MINT_PRICE_USDT) = JString ''10000000''"
  using C9_challenge_deterministic
    [where req = "\<lparr>req_tokenAddress = Some '' 0xAA '', req_recipients = Some [''0x01''],
                   req_paymentHeader = None, req_clientIP = ''10.0.0.1''\<rparr>"
       and ?env1.0 =
         "\<lparr>env_cfg = \<lparr>maxRequestsPerWindow = 10, timeWindowMs = 3000, banDurationMs = 3600000\<rparr>,
           env_redisUrl = Some ''redis://localhost:6379'',
           env_chain = \<lparr>chain_maxMintCount = (\<lambda>a. None), chain_mintCount = (\<lambda>a. None),
                        chain_deploymentDeadline = (\<lambda>a. Some 5000)\<rparr>,
           env_deadlineCache = Map.empty, env_redis = \<lparr>store = Map.empty, faults = []\<rparr>,
           env_now = 1000, env_requireWhitelist = False, env_isWhitelisted = False\<rparr>"
       and ?env2.0 =
         "\<lparr>env_cfg = \<lparr>maxRequestsPerWindow = 5, timeWindowMs = 1000, banDurationMs = 60000\<rparr>,
           env_redisUrl = None,
           env_chain = \<lparr>chain_maxMintCount = (\<lambda>a. None), chain_mintCount = (\<lambda>a. None),
                        chain_deploymentDeadline = (\<lambda>a. None)\<rparr>,
           env_deadlineCache = [''0xaa'' \<mapsto> 5000],
           env_redis = \<lparr>store = Map.empty, faults = [NoConn]\<rparr>,
           env_now = 2000, env_requireWhitelist = False, env_isWhitelisted = False\<rparr>"
       and ?resp1.0 = "challenge_response ''0xAA''" and ?resp2.0 = "challenge_response ''0xAA''"
       and t = "''0xAA''" and rs = "[''0x01'']"]
  by (simp add: is_space_def trim_def validate_body_def getDeploymentDeadline_def
      deadline_gate_def mint_front_def truthy_def toLowerCase_def digit_def MINT_PRICE_USDT_def
      challenge_response_def)

subsection \<open>Acquiring a connection from an exhausted pool\<close>

lemma validate_available_empty:
  "availableConnections p = [] \<Longrightarrow> validate_available env p = (None, p)"
  by (subst validate_available.simps) simp

lemma removeConnection_queue [simp]: "waitingQueue (removeConnection c p) = waitingQueue p"
  by (simp add: removeConnection_def)

lemma validate_available_queue:
  "waitingQueue (snd (validate_available env p)) = waitingQueue p"
proof (induction env p rule: validate_available.induct)
  case (1 env p)
  show ?case
  proof (cases "availableConnections p")
    case Nil
    then show ?thesis by (simp add: validate_available_empty)
  next
    case (Cons x xs)
    show ?thesis
    proof (cases "conn_ready env (last (availableConnections p)) \<and>
                  conn_ping env (last (availableConnections p))")
      case True
      then show ?thesis using Cons by (subst validate_available.simps) (simp add: Let_def)
    next
      case False
      have "waitingQueue (snd (validate_available env
              (removeConnection (last (availableConnections p))
                 (p\<lparr>availableConnections := butlast (availableConnections p)\<rparr>)))) =
            waitingQueue (removeConnection (last (availableConnections p))
                 (p\<lparr>availableConnections := butlast (availableConnections p)\<rparr>))"
        using "1.IH"[OF Cons refl refl] False by simp
      then show ?thesis using Cons False
        by (subst validate_available.simps) (simp add: Let_def)
    qed
  qed
qed

lemma createConnection_queue:
  "waitingQueue (snd (createConnection env p)) = waitingQueue p"
  by (simp add: createConnection_def Let_def)

text \<open>
  The waiting queue of a new pool holds wrappers only, and \<^verbatim>\<open>acquire\<close>,
  \<^verbatim>\<open>release\<close> and \<^verbatim>\<open>shutdown\<close> keep it so: nothing ever pushes a promise's own
  \<^verbatim>\<open>resolve\<close>.
\<close>

lemma wrappers_only_new_pool: "wrappers_only (new_pool optMin optMax)"
  by (simp add: wrappers_only_def new_pool_def)

lemma acquire_queue:
  "waitingQueue (snd (acquire env p)) =
     (case fst (acquire env p) of
        Acquired c \<Rightarrow> waitingQueue p
      | Waiting w \<Rightarrow> waitingQueue p @ [Wrapper w])"
proof -
  obtain v p1 where vp: "validate_available env p = (v, p1)" by (cases "validate_available env p")
  have q1: "waitingQueue p1 = waitingQueue p"
    using validate_available_queue[of env p] vp by simp
  obtain u p2 where cp: "createConnection env p1 = (u, p2)" by (cases "createConnection env p1")
  have q2: "waitingQueue p2 = waitingQueue p"
    using createConnection_queue[of env p1] cp q1 by simp
  show ?thesis
    by (cases v; cases u; cases "availableConnections p2")
       (simp_all add: acquire_def vp cp q1 q2 del: validate_available.simps)
qed

lemma wrappers_only_acquire: "wrappers_only p \<Longrightarrow> wrappers_only (snd (acquire env p))"
  using acquire_queue[of env p]
  by (cases "fst (acquire env p)") (simp_all add: wrappers_only_def)

lemma wrappers_only_release: "wrappers_only p \<Longrightarrow> wrappers_only (snd (release env c p))"
  by (cases "waitingQueue p"; cases "hd (waitingQueue p)")
     (auto simp: release_def wrappers_only_def Let_def createConnection_def removeConnection_def)

lemma wrappers_only_shutdown: "wrappers_only (snd (shutdown p))"
  by (simp add: shutdown_def wrappers_only_def)

lemma wrappers_only_no_resolve: "wrappers_only p \<Longrightarrow> ResolveFn w \<notin> set (waitingQueue p)"
  by (auto simp: wrappers_only_def list_all_iff)

lemma acquire_timeout_pending: "wrappers_only p \<Longrightarrow> acquire_timeout w p = (Pending, p)"
  by (simp add: acquire_timeout_def wrappers_only_no_resolve)

lemma acquire_waiting:
  assumes "wrappers_only p" and "acquire env p = (Waiting w, p1)"
  shows "acquire_timeout w p1 = (Pending, p1) \<and> Wrapper w \<in> set (waitingQueue p1) \<and>
         wrappers_only p1"
proof -
  have w: "wrappers_only p1" using wrappers_only_acquire[OF assms(1), of env] assms(2) by simp
  have "waitingQueue p1 = waitingQueue p @ [Wrapper w]"
    using acquire_queue[of env p] assms(2) by simp
  then show ?thesis using w by (simp add: acquire_timeout_pending)
qed

lemma acquire_exhausted:
  assumes "\<not> isShuttingDown p" and "availableConnections p = []"
    and "opt_max p \<le> length (connections p)"
  shows "acquire env p =
           (Waiting (nextWaiterId p),
            p\<lparr>waitingQueue := waitingQueue p @ [Wrapper (nextWaiterId p)],
              nextWaiterId := nextWaiterId p + 1\<rparr>)"
  using assms by (simp add: acquire_def validate_available_empty)

lemma acquire_until_timeout_exhausted:
  assumes "wrappers_only p" and "\<not> isShuttingDown p" and "availableConnections p = []"
    and "opt_max p \<le> length (connections p)"
  shows "acquire_until_timeout env p =
           (Pending,
            p\<lparr>waitingQueue := waitingQueue p @ [Wrapper (nextWaiterId p)],
              nextWaiterId := nextWaiterId p + 1\<rparr>)"
  using acquire_waiting[OF assms(1) acquire_exhausted[OF assms(2,3,4), of env]]
  by (simp add: acquire_until_timeout_def acquire_exhausted[OF assms(2,3,4)])

lemma execute_until_timeout_exhausted:
  assumes "wrappers_only p" and "\<not> isShuttingDown p" and "availableConnections p = []"
    and "opt_max p \<le> length (connections p)"
  shows "fst (execute_until_timeout env p fn) = None"
  by (simp add: execute_until_timeout_def acquire_until_timeout_exhausted[OF assms])

lemma acquire_null_iff: "fst (acquire env p) = Acquired None \<longleftrightarrow> isShuttingDown p"
  by (auto simp: acquire_def split: prod.splits option.splits list.splits outcome.splits)

lemma acquire_until_timeout_settled:
  assumes "wrappers_only p"
  shows "fst (acquire_until_timeout env p) \<noteq> Rejected e \<and>
         (fst (acquire_until_timeout env p) = Resolved None \<longleftrightarrow> isShuttingDown p)"
proof (cases "acquire env p")
  case (Pair st p1)
  show ?thesis
  proof (cases st)
    case (Acquired c)
    then show ?thesis
      using Pair acquire_null_iff[of env p] by (simp add: acquire_until_timeout_def)
  next
    case (Waiting w)
    then have "acquire_timeout w p1 = (Pending, p1)"
      using acquire_waiting[OF assms, of env w p1] Pair by simp
    then show ?thesis
      using Pair Waiting acquire_null_iff[of env p] by (simp add: acquire_until_timeout_def)
  qed
qed

text \<open>
  Claim C8 does not hold of the code. A caller of \<^verbatim>\<open>acquire()\<close> that has to wait is
  queued by its wrapper function. When its timer fires,
  \<^verbatim>\<open>waitingQueue.indexOf(resolve)\<close> looks for the promise's own \<^verbatim>\<open>resolve\<close>, which
  is never in the queue: the timer neither takes the caller out of the queue nor settles
  its promise, so the caller gets no timeout error, and not even the \<^verbatim>\<open>null\<close> that the
  body of the timer would resolve with. On a pool at its maximum with no free connection
  the caller stays pending and queued, and \<^verbatim>\<open>execute\<close> with it. \<^verbatim>\<open>acquire()\<close> never
  rejects, and it resolves with \<^verbatim>\<open>null\<close> only while the pool is shutting down.
\<close>

theorem C8_acquire_timeout_never_fires:
  assumes "wrappers_only p"
  shows "(acquire env p = (Waiting w, p1) \<longrightarrow>
            acquire_timeout w p1 = (Pending, p1) \<and> Wrapper w \<in> set (waitingQueue p1) \<and>
            wrappers_only p1) \<and>
         (\<not> isShuttingDown p \<and> availableConnections p = [] \<and>
          opt_max p \<le> length (connections p) \<longrightarrow>
            acquire_until_timeout env p =
              (Pending,
               p\<lparr>waitingQueue := waitingQueue p @ [Wrapper (nextWaiterId p)],
                 nextWaiterId := nextWaiterId p + 1\<rparr>) \<and>
            fst (execute_until_timeout env p fn) = None) \<and>
         fst (acquire_until_timeout env p) \<noteq> Rejected e \<and>
         (fst (acquire_until_timeout env p) = Resolved None \<longleftrightarrow> isShuttingDown p)"
  apply (intro conjI)
  subgoal using acquire_waiting[OF assms, of env w p1] by blast
  subgoal using acquire_until_timeout_exhausted[OF assms, of env]
      execute_until_timeout_exhausted[OF assms, of env fn] by blast
  subgoal using acquire_until_timeout_settled[OF assms, of env e] by blast
  subgoal using acquire_until_timeout_settled[OF assms, of env e] by blast
  done

text \<open>
  A pool of at most one connection, which is in use: the caller waits, the timer fires,
  and the caller is still pending and still queued.
\<close>

theorem C8_acquire_timeout_never_fires_witness:
  "wrappers_only
     \<lparr>connections = [1], availableConnections = [], waitingQueue = [],
      connectionsInUse = [1], isShuttingDown = False, opt_min = 1, opt_max = 1,
      nextConnectionId = 2, nextWaiterId = 0\<rparr> \<and>
   acquire_until_timeout
     \<lparr>conn_ready = (\<lambda>c. True), conn_ping = (\<lambda>c. True), connect_ok = True\<rparr>
     \<lparr>connections = [1], availableConnections = [], waitingQueue = [],
      connectionsInUse = [1], isShuttingDown = False, opt_min = 1, opt_max = 1,
      nextConnectionId = 2, nextWaiterId = 0\<rparr>
   = (Pending,
      \<lparr>connections = [1], availableConnections = [], waitingQueue = [Wrapper 0],
       connectionsInUse = [1], isShuttingDown = False, opt_min = 1, opt_max = 1,
       nextConnectionId = 2, nextWaiterId = 1\<rparr>) \<and>
   fst (execute_until_timeout
     \<lparr>conn_ready = (\<lambda>c. True), conn_ping = (\<lambda>c. True), connect_ok = True\<rparr>
     \<lparr>connections = [1], availableConnections = [], waitingQueue = [],
      connectionsInUse = [1], isShuttingDown = False, opt_min = 1, opt_max = 1,
      nextConnectionId = 2, nextWaiterId = 0\<rparr>
     (\<lambda>c. Returned (1::int))) = None"
  using C8_acquire_timeout_never_fires
    [where p = "\<lparr>connections = [1], availableConnections = [], waitingQueue = [],
      connectionsInUse = [1], isShuttingDown = False, opt_min = 1, opt_max = 1,
      nextConnectionId = 2, nextWaiterId = 0\<rparr>"
       and env = "\<lparr>conn_ready = (\<lambda>c. True), conn_ping = (\<lambda>c. True), connect_ok = True\<rparr>"
       and e = "''timeout''" and fn = "\<lambda>c. Returned (1::int)" and w = 0
       and ?p1.0 = "\<lparr>connections = [1], availableConnections = [], waitingQueue = [Wrapper 0],
       connectionsInUse = [1], isShuttingDown = False, opt_min = 1, opt_max = 1,
       nextConnectionId = 2, nextWaiterId = 1\<rparr>"]
  by (simp add: wrappers_only_def)

subsection \<open>The batch settlement coalescer\<close>

lemma v_item_verify_item [simp]: "v_item (verify_item verify item) = item"
  by (simp add: verify_item_def split: verify_reply.splits)

lemma valid_items_filter:
  "map v_item (filter v_valid (map (verify_item verify) items)) =
   filter (\<lambda>item. v_valid (verify_item verify item)) items"
  by (induction items) simp_all

lemma valid_filter_empty:
  "(filter v_valid (map (verify_item verify) items) = []) =
   (filter (\<lambda>item. v_valid (verify_item verify item)) items = [])"
  by (simp add: filter_map comp_def)

lemma index_map_absent: "k \<notin> set ks \<Longrightarrow> index_map ks i k = None"
  by (induction ks arbitrary: i) (auto simp: map_add_def)

lemma index_map_distinct:
  "distinct (pre @ k # post) \<Longrightarrow> index_map (pre @ k # post) i k = Some (i + length pre)"
proof (induction pre arbitrary: i)
  case Nil
  then show ?case by (simp add: map_add_def index_map_absent)
next
  case (Cons a pre)
  then show ?case by (simp add: map_add_def)
qed

lemma find_invalid:
  "distinct (map requestId xs) \<Longrightarrow> item \<in> set xs \<Longrightarrow> \<not> v_valid (verify_item verify item) \<Longrightarrow>
   find (\<lambda>iv. requestId (v_item iv) = requestId item)
     (filter (\<lambda>r. \<not> v_valid r) (map (verify_item verify) xs)) = Some (verify_item verify item)"
proof (induction xs)
  case Nil
  then show ?case by simp
next
  case (Cons x xs)
  show ?case
  proof (cases "x = item")
    case True
    then show ?thesis using Cons.prems by simp
  next
    case False
    then have "item \<in> set xs" using Cons.prems by simp
    then have "requestId x \<noteq> requestId item" using Cons.prems(1) by force
    then show ?thesis using Cons \<open>item \<in> set xs\<close> by simp
  qed
qed

lemma final_results_demux:
  assumes "distinct (map requestId (pre @ rest))"
    and "length (filter (\<lambda>item. v_valid (verify_item verify item)) (pre @ rest)) \<le> length results"
  shows "final_results
           (index_map (map requestId (filter (\<lambda>item. v_valid (verify_item verify item)) (pre @ rest))) 0)
           (filter (\<lambda>r. \<not> v_valid r) (map (verify_item verify) (pre @ rest))) results rest =
         Returned (demux_spec verify results
                     (length (filter (\<lambda>item. v_valid (verify_item verify item)) pre)) rest)"
  using assms
proof (induction rest arbitrary: pre)
  case Nil
  then show ?case by simp
next
  case (Cons item rest)
  let ?P = "\<lambda>item. v_valid (verify_item verify item)"
  let ?all = "pre @ item # rest"
  have d': "distinct (map requestId ((pre @ [item]) @ rest))" using Cons.prems(1) by simp
  have l': "length (filter ?P ((pre @ [item]) @ rest)) \<le> length results"
    using Cons.prems(2) by simp
  note IH = Cons.IH[OF d' l', simplified]
  show ?case
  proof (cases "?P item")
    case True
    have dv: "distinct (map requestId (filter ?P pre) @ requestId item # map requestId (filter ?P rest))"
      using distinct_map_filter[OF Cons.prems(1), of ?P] True by simp
    have idx: "index_map (map requestId (filter ?P ?all)) 0 (requestId item)
                 = Some (length (filter ?P pre))"
      using index_map_distinct[OF dv, of 0] True by simp
    have lt: "length (filter ?P pre) < length results"
      using Cons.prems(2) True by simp
    show ?thesis using True idx lt IH by simp
  next
    case False
    have ni: "requestId item \<notin> set (map requestId (filter ?P ?all))"
      unfolding set_map
    proof
      assume "requestId item \<in> requestId ` set (filter ?P ?all)"
      then obtain v where v0: "v \<in> set (filter ?P ?all)" "requestId item = requestId v"
        by (rule imageE)
      have v: "v \<in> set ?all" "?P v" using v0(1) unfolding set_filter by blast+
      have "inj_on requestId (set ?all)"
        using Cons.prems(1) by (simp only: distinct_map)
      moreover have "item \<in> set ?all" by simp
      ultimately have "v = item" using v(1) v0(2) by (auto dest: inj_onD)
      then show False using v(2) False by simp
    qed
    have idx: "index_map (map requestId (filter ?P ?all)) 0 (requestId item) = None"
      by (rule index_map_absent[OF ni])
    have f: "find (\<lambda>iv. requestId (v_item iv) = requestId item)
               (filter (\<lambda>r. \<not> v_valid r) (map (verify_item verify) ?all))
             = Some (verify_item verify item)"
      using find_invalid[OF Cons.prems(1), of item verify] False by simp
    show ?thesis using False idx IH f by (simp add: verification_failed_def Let_def)
  qed
qed

lemma demux_spec_length [simp]: "length (demux_spec verify results k items) = length items"
  by (induction items arbitrary: k) simp_all

lemma demux_spec_ids [simp]:
  "map res_requestId (demux_spec verify results k items) = map requestId items"
  by (induction items arbitrary: k) (simp_all add: from_settle_def)

lemma demux_spec_invalid:
  "i < length items \<Longrightarrow> \<not> v_valid (verify_item verify (items ! i)) \<Longrightarrow>
   demux_spec verify results k items ! i =
     \<lparr>res_requestId = requestId (items ! i), res_success = False, res_transaction = None,
      res_nonce = None,
      res_error = Some (''Verification failed: '' @
        (if truthy (v_reason (verify_item verify (items ! i)))
         then the (v_reason (verify_item verify (items ! i))) else ''unknown''))\<rparr>"
proof (induction items arbitrary: i k)
  case Nil
  then show ?case by simp
next
  case (Cons a items)
  then show ?case by (cases i) simp_all
qed


lemma batchSettle_none_valid:
  "filter (\<lambda>item. v_valid (verify_item verify item)) items = [] \<Longrightarrow>
   batchSettle verify settle items = (Returned (map all_failed items), None)"
  by (simp add: batchSettle_def Let_def valid_items_filter valid_filter_empty)

lemma batchSettle_posted:
  "filter (\<lambda>item. v_valid (verify_item verify item)) items \<noteq> [] \<Longrightarrow>
   snd (batchSettle verify settle items) =
     Some (map (\<lambda>item. (paymentPayload item, paymentRequirements item))
            (filter (\<lambda>item. v_valid (verify_item verify item)) items))"
  by (simp add: batchSettle_def Let_def valid_items_filter valid_filter_empty
      split: batch_reply.splits)

lemma batchSettle_json:
  assumes "distinct (map requestId items)"
    and "filter (\<lambda>item. v_valid (verify_item verify item)) items \<noteq> []"
    and "settle (map (\<lambda>item. (paymentPayload item, paymentRequirements item))
            (filter (\<lambda>item. v_valid (verify_item verify item)) items)) = BatchJson results"
    and "length (filter (\<lambda>item. v_valid (verify_item verify item)) items) \<le> length results"
  shows "fst (batchSettle verify settle items) = Returned (demux_spec verify results 0 items)"
  using assms final_results_demux[of "[]" items verify results]
  by (simp add: batchSettle_def Let_def valid_items_filter valid_filter_empty)

lemma batchSettle_http_error:
  assumes "filter (\<lambda>item. v_valid (verify_item verify item)) items \<noteq> []"
    and "settle (map (\<lambda>item. (paymentPayload item, paymentRequirements item))
            (filter (\<lambda>item. v_valid (verify_item verify item)) items)) = BatchHttpError st txt"
  shows "fst (batchSettle verify settle items) =
           Thrown (''Facilitator batch settle failed: '' @ decimal st @ '' '' @ txt)"
  using assms by (simp add: batchSettle_def Let_def valid_items_filter valid_filter_empty)

lemma valid_count:
  "length (filter (\<lambda>item. v_valid (verify_item verify item)) items) =
   length items - length (filter (\<lambda>item. \<not> v_valid (verify_item verify item)) items)"
  using sum_length_filter_compl[of "\<lambda>item. v_valid (verify_item verify item)" items] by simp

lemma some_valid_iff:
  "filter (\<lambda>item. v_valid (verify_item verify item)) items \<noteq> [] \<longleftrightarrow>
   length (filter (\<lambda>item. \<not> v_valid (verify_item verify item)) items) < length items"
  using sum_length_filter_compl[of "\<lambda>item. v_valid (verify_item verify item)" items]
  by (cases "filter (\<lambda>item. v_valid (verify_item verify item)) items") auto

lemma to_completion_failed:
  "to_completion
     \<lparr>res_requestId = rid, res_success = False, res_transaction = None, res_nonce = None,
      res_error = Some (''Verification failed: '' @ why)\<rparr>
   = Reject (''Verification failed: '' @ why)"
  by (simp add: to_completion_def truthy_def)







lemma fold_complete:
  "distinct (map f xs) \<Longrightarrow> f ` set xs \<subseteq> set (pendingPromises m) \<Longrightarrow>
   completed (foldl (\<lambda>m' x. complete (f x) (g x) m') m xs) = completed m @ map (\<lambda>x. (f x, g x)) xs \<and>
   queue (foldl (\<lambda>m' x. complete (f x) (g x) m') m xs) =
     filter (\<lambda>kv. fst kv \<notin> f ` set xs) (queue m) \<and>
   set (pendingPromises (foldl (\<lambda>m' x. complete (f x) (g x) m') m xs)) =
     set (pendingPromises m) - f ` set xs \<and>
   timer (foldl (\<lambda>m' x. complete (f x) (g x) m') m xs) = timer m \<and>
   batchSize (foldl (\<lambda>m' x. complete (f x) (g x) m') m xs) = batchSize m"
proof (induction xs arbitrary: m)
  case Nil
  then show ?case by simp
next
  case (Cons x xs)
  let ?m1 = "complete (f x) (g x) m"
  have mem: "f x \<in> set (pendingPromises m)" using Cons.prems(2) by simp
  have m1: "completed ?m1 = completed m @ [(f x, g x)]"
    "queue ?m1 = filter (\<lambda>kv. fst kv \<noteq> f x) (queue m)"
    "set (pendingPromises ?m1) = set (pendingPromises m) - {f x}"
    "timer ?m1 = timer m" "batchSize ?m1 = batchSize m"
    using mem by (auto simp: complete_def map_delete_def)
  have d: "distinct (map f xs)" and nfx: "f x \<notin> f ` set xs" using Cons.prems(1) by simp_all
  have sub: "f ` set xs \<subseteq> set (pendingPromises ?m1)"
  proof
    fix y
    assume y: "y \<in> f ` set xs"
    then have "y \<noteq> f x" using nfx by blast
    moreover have "y \<in> set (pendingPromises m)" using y Cons.prems(2) by auto
    ultimately show "y \<in> set (pendingPromises ?m1)" unfolding m1(3) by simp
  qed
  note IH = Cons.IH[OF d sub, unfolded m1]
  have fq: "filter (\<lambda>kv. fst kv \<notin> f ` set xs) (filter (\<lambda>kv. fst kv \<noteq> f x) (queue m)) =
            filter (\<lambda>kv. fst kv \<notin> f ` set (x # xs)) (queue m)"
    by (simp add: conj_commute)
  have fp: "set (pendingPromises m) - {f x} - f ` set xs = set (pendingPromises m) - f ` set (x # xs)"
    by auto
  show ?case
    using IH fq fp by simp
qed









lemma batchSettle_throws:
  assumes "filter (\<lambda>item. v_valid (verify_item verify item)) items \<noteq> []"
    and "settle (map (\<lambda>item. (paymentPayload item, paymentRequirements item))
            (filter (\<lambda>item. v_valid (verify_item verify item)) items)) = BatchThrows msg"
  shows "fst (batchSettle verify settle items) = Thrown msg"
  using assms by (simp add: batchSettle_def Let_def valid_items_filter valid_filter_empty)

lemma flush_finish_rejects_all:
  assumes "distinct (map requestId items)"
    and "requestId ` set items \<subseteq> set (pendingPromises m)"
  shows "completed (flush_finish m items (Thrown e)) =
           completed m @ map (\<lambda>item. (requestId item, Reject e)) items"
  using fold_complete[OF assms, of "\<lambda>item. Reject e"]
  by (simp add: flush_finish_def Let_def)

lemma verify_item_reason_field:
  "verify item = VerifyJson False why None \<Longrightarrow>
   \<not> v_valid (verify_item verify item) \<and> v_reason (verify_item verify item) = None \<and>
   handler_verify_reason (verify item) = (if truthy why then why else None)"
  by (simp add: verify_item_def handler_verify_reason_def)

lemma batchSettle_invalid_split:
  assumes "distinct (map requestId items)"
  shows
    "(length (filter (\<lambda>item. \<not> v_valid (verify_item verify item)) items) < length items \<longrightarrow>
        snd (batchSettle verify settle items) =
          Some (map (\<lambda>item. (paymentPayload item, paymentRequirements item))
                 (filter (\<lambda>item. v_valid (verify_item verify item)) items)) \<and>
        length (the (snd (batchSettle verify settle items))) =
          length items - length (filter (\<lambda>item. \<not> v_valid (verify_item verify item)) items)) \<and>
     (length (filter (\<lambda>item. \<not> v_valid (verify_item verify item)) items) < length items \<and>
      settle (map (\<lambda>item. (paymentPayload item, paymentRequirements item))
               (filter (\<lambda>item. v_valid (verify_item verify item)) items)) = BatchJson results \<and>
      length items - length (filter (\<lambda>item. \<not> v_valid (verify_item verify item)) items)
        \<le> length results \<longrightarrow>
        fst (batchSettle verify settle items) = Returned (demux_spec verify results 0 items) \<and>
        (\<forall>i. i < length items \<and> \<not> v_valid (verify_item verify (items ! i)) \<longrightarrow>
           to_completion (demux_spec verify results 0 items ! i) =
             Reject (''Verification failed: '' @
               (if truthy (v_reason (verify_item verify (items ! i)))
                then the (v_reason (verify_item verify (items ! i))) else ''unknown'')))) \<and>
     (length (filter (\<lambda>item. \<not> v_valid (verify_item verify item)) items) = length items \<longrightarrow>
        batchSettle verify settle items = (Returned (map all_failed items), None))"
proof (intro conjI impI)
  assume k: "length (filter (\<lambda>item. \<not> v_valid (verify_item verify item)) items) < length items"
  then have ne: "filter (\<lambda>item. v_valid (verify_item verify item)) items \<noteq> []"
    by (simp add: some_valid_iff)
  show p: "snd (batchSettle verify settle items) =
          Some (map (\<lambda>item. (paymentPayload item, paymentRequirements item))
                 (filter (\<lambda>item. v_valid (verify_item verify item)) items))"
    by (rule batchSettle_posted[OF ne])
  show "length (the (snd (batchSettle verify settle items))) =
          length items - length (filter (\<lambda>item. \<not> v_valid (verify_item verify item)) items)"
    by (simp add: p valid_count)
next
  assume a: "length (filter (\<lambda>item. \<not> v_valid (verify_item verify item)) items) < length items \<and>
      settle (map (\<lambda>item. (paymentPayload item, paymentRequirements item))
               (filter (\<lambda>item. v_valid (verify_item verify item)) items)) = BatchJson results \<and>
      length items - length (filter (\<lambda>item. \<not> v_valid (verify_item verify item)) items)
        \<le> length results"
  then have ne: "filter (\<lambda>item. v_valid (verify_item verify item)) items \<noteq> []"
    by (simp add: some_valid_iff)
  have le: "length (filter (\<lambda>item. v_valid (verify_item verify item)) items) \<le> length results"
    using a by (simp add: valid_count)
  show "fst (batchSettle verify settle items) = Returned (demux_spec verify results 0 items)"
    using batchSettle_json[OF assms ne _ le] a by simp
  show "\<forall>i. i < length items \<and> \<not> v_valid (verify_item verify (items ! i)) \<longrightarrow>
           to_completion (demux_spec verify results 0 items ! i) =
             Reject (''Verification failed: '' @
               (if truthy (v_reason (verify_item verify (items ! i)))
                then the (v_reason (verify_item verify (items ! i))) else ''unknown''))"
  proof (intro allI impI)
    fix i
    assume i: "i < length items \<and> \<not> v_valid (verify_item verify (items ! i))"
    have eq: "demux_spec verify results 0 items ! i =
       \<lparr>res_requestId = requestId (items ! i), res_success = False, res_transaction = None,
        res_nonce = None,
        res_error = Some (''Verification failed: '' @
          (if truthy (v_reason (verify_item verify (items ! i)))
           then the (v_reason (verify_item verify (items ! i))) else ''unknown''))\<rparr>"
      using i by (intro demux_spec_invalid) simp_all
    show "to_completion (demux_spec verify results 0 items ! i) =
             Reject (''Verification failed: '' @
               (if truthy (v_reason (verify_item verify (items ! i)))
                then the (v_reason (verify_item verify (items ! i))) else ''unknown''))"
      unfolding eq by (rule to_completion_failed)
  qed
next
  assume "length (filter (\<lambda>item. \<not> v_valid (verify_item verify item)) items) = length items"
  then have "filter (\<lambda>item. v_valid (verify_item verify item)) items = []"
    using some_valid_iff[of verify items] by simp
  then show "batchSettle verify settle items = (Returned (map all_failed items), None)"
    by (rule batchSettle_none_valid)
qed

lemma reason_field_lost:
  assumes "distinct (map requestId items)" and "i < length items"
    and "verify (items ! i) = VerifyJson False (Some why) None" and "why \<noteq> []"
    and "filter (\<lambda>item. v_valid (verify_item verify item)) items \<noteq> []"
    and "settle (map (\<lambda>item. (paymentPayload item, paymentRequirements item))
            (filter (\<lambda>item. v_valid (verify_item verify item)) items)) = BatchJson results"
    and "length (filter (\<lambda>item. v_valid (verify_item verify item)) items) \<le> length results"
  shows "fst (batchSettle verify settle items) = Returned (demux_spec verify results 0 items) \<and>
         demux_spec verify results 0 items ! i =
           \<lparr>res_requestId = requestId (items ! i), res_success = False, res_transaction = None,
            res_nonce = None, res_error = Some ''Verification failed: unknown''\<rparr> \<and>
         to_completion (demux_spec verify results 0 items ! i) =
           Reject ''Verification failed: unknown'' \<and>
         handler_verify_reason (verify (items ! i)) = Some why"
proof -
  note v = verify_item_reason_field[where verify = verify and item = "items ! i", OF assms(3)]
  have r: "fst (batchSettle verify settle items) = Returned (demux_spec verify results 0 items)"
    by (rule batchSettle_json[where items = items and verify = verify and settle = settle
          and results = results, OF assms(1,5,6,7)])
  have e: "demux_spec verify results 0 items ! i =
       \<lparr>res_requestId = requestId (items ! i), res_success = False, res_transaction = None,
        res_nonce = None, res_error = Some ''Verification failed: unknown''\<rparr>"
    using demux_spec_invalid[OF assms(2), of verify results 0] v by (simp add: truthy_def)
  show ?thesis
    using r e v assms(4) by (simp add: to_completion_def truthy_def)
qed

lemma post_failure_rejects_all:
  assumes "distinct (map requestId items)"
    and "requestId ` set items \<subseteq> set (pendingPromises m)"
    and "filter (\<lambda>item. v_valid (verify_item verify item)) items \<noteq> []"
  shows "(settle (map (\<lambda>item. (paymentPayload item, paymentRequirements item))
            (filter (\<lambda>item. v_valid (verify_item verify item)) items)) = BatchHttpError st errorText \<longrightarrow>
          completed (flush_finish m items (fst (batchSettle verify settle items))) =
            completed m @ map (\<lambda>item. (requestId item,
              Reject (''Facilitator batch settle failed: '' @ decimal st @ '' '' @ errorText))) items) \<and>
         (settle (map (\<lambda>item. (paymentPayload item, paymentRequirements item))
            (filter (\<lambda>item. v_valid (verify_item verify item)) items)) = BatchThrows msg \<longrightarrow>
          completed (flush_finish m items (fst (batchSettle verify settle items))) =
            completed m @ map (\<lambda>item. (requestId item, Reject msg)) items)"
  using batchSettle_http_error[OF assms(3), of settle st errorText]
    batchSettle_throws[OF assms(3), of settle msg]
    flush_finish_rejects_all[OF assms(1,2)]
  by simp

text \<open>
  Claim C4 does not hold of the code. \<^verbatim>\<open>batchSettle\<close> reads the reason of a failed
  re-verify from the field \<^verbatim>\<open>invalidReason\<close> alone, while \<^verbatim>\<open>handleMintRequest\<close> reads
  \<^verbatim>\<open>reason || invalidReason\<close> from answers of the same endpoint, noting that the
  facilitator returns \<^verbatim>\<open>reason\<close>. So, in a batch with distinct request ids that the
  facilitator settles with enough positional results, an item whose \<^verbatim>\<open>/verify\<close> answer
  carries its reason in \<^verbatim>\<open>reason\<close> is rejected with "Verification failed: unknown":
  its reason is lost. Beside that: the body posted holds exactly the valid items, in
  order, when there is one; no caller is completed before the post has been answered,
  and when the post fails every caller of the batch, those of the invalid items
  included, is rejected with the error of the post; when no item is valid nothing is
  posted and every item fails with "All payments failed verification".
\<close>

theorem C4_verify_reason_lost:
  assumes "distinct (map requestId items)"
  shows
    "(i < length items \<and> verify (items ! i) = VerifyJson False (Some why) None \<and> why \<noteq> [] \<and>
      filter (\<lambda>item. v_valid (verify_item verify item)) items \<noteq> [] \<and>
      settle (map (\<lambda>item. (paymentPayload item, paymentRequirements item))
               (filter (\<lambda>item. v_valid (verify_item verify item)) items)) = BatchJson results \<and>
      length (filter (\<lambda>item. v_valid (verify_item verify item)) items) \<le> length results \<longrightarrow>
        fst (batchSettle verify settle items) = Returned (demux_spec verify results 0 items) \<and>
        demux_spec verify results 0 items ! i =
          \<lparr>res_requestId = requestId (items ! i), res_success = False, res_transaction = None,
           res_nonce = None, res_error = Some ''Verification failed: unknown''\<rparr> \<and>
        to_completion (demux_spec verify results 0 items ! i) =
          Reject ''Verification failed: unknown'' \<and>
        handler_verify_reason (verify (items ! i)) = Some why) \<and>
     (filter (\<lambda>item. v_valid (verify_item verify item)) items \<noteq> [] \<longrightarrow>
        snd (batchSettle verify settle items) =
          Some (map (\<lambda>item. (paymentPayload item, paymentRequirements item))
                 (filter (\<lambda>item. v_valid (verify_item verify item)) items)) \<and>
        length (the (snd (batchSettle verify settle items))) =
          length items - length (filter (\<lambda>item. \<not> v_valid (verify_item verify item)) items)) \<and>
     (filter (\<lambda>item. v_valid (verify_item verify item)) items \<noteq> [] \<and>
      requestId ` set items \<subseteq> set (pendingPromises m) \<and>
      settle (map (\<lambda>item. (paymentPayload item, paymentRequirements item))
               (filter (\<lambda>item. v_valid (verify_item verify item)) items)) =
        BatchHttpError st errorText \<longrightarrow>
        completed (flush_finish m items (fst (batchSettle verify settle items))) =
          completed m @ map (\<lambda>item. (requestId item,
            Reject (''Facilitator batch settle failed: '' @ decimal st @ '' '' @ errorText))) items) \<and>
     (filter (\<lambda>item. v_valid (verify_item verify item)) items \<noteq> [] \<and>
      requestId ` set items \<subseteq> set (pendingPromises m) \<and>
      settle (map (\<lambda>item. (paymentPayload item, paymentRequirements item))
               (filter (\<lambda>item. v_valid (verify_item verify item)) items)) = BatchThrows msg \<longrightarrow>
        completed (flush_finish m items (fst (batchSettle verify settle items))) =
          completed m @ map (\<lambda>item. (requestId item, Reject msg)) items) \<and>
     (filter (\<lambda>item. v_valid (verify_item verify item)) items = [] \<longrightarrow>
        batchSettle verify settle items =
          (Returned (map (\<lambda>item.
             \<lparr>res_requestId = requestId item, res_success = False, res_transaction = None,
              res_nonce = None, res_error = Some ''All payments failed verification''\<rparr>) items),
           None))"
proof -
  have k: "length (filter (\<lambda>item. \<not> v_valid (verify_item verify item)) items) < length items"
    if "filter (\<lambda>item. v_valid (verify_item verify item)) items \<noteq> []"
    using that by (simp add: some_valid_iff)
  have af: "map all_failed items = map (\<lambda>item.
             \<lparr>res_requestId = requestId item, res_success = False, res_transaction = None,
              res_nonce = None, res_error = Some ''All payments failed verification''\<rparr>) items"
    by (simp add: all_failed_def)
  show ?thesis
    apply (intro conjI)
    subgoal using reason_field_lost[OF assms(1), of i verify why settle results] by blast
    subgoal using batchSettle_invalid_split[OF assms(1), of verify settle results] k by blast
    subgoal using post_failure_rejects_all[OF assms(1), of m verify settle st errorText msg] by blast
    subgoal using post_failure_rejects_all[OF assms(1), of m verify settle st errorText msg] by blast
    subgoal using batchSettle_none_valid[of verify items settle] unfolding af by blast
    done
qed

text \<open>
  Two items; the facilitator finds the second invalid and says why in \<^verbatim>\<open>reason\<close>. One
  item is posted, and the caller of the second learns "unknown".
\<close>

theorem C4_verify_reason_lost_witness:
  "batchSettle
     (\<lambda>item. if requestId item = ''b'' then VerifyJson False (Some ''insufficient_funds'') None
             else VerifyJson True None None)
     (\<lambda>posted. BatchJson
        [\<lparr>fr_index = 0, fr_success = True, fr_transaction = Some ''0x01'', fr_nonce = 7,
          fr_error = None\<rparr>])
     [\<lparr>requestId = ''a'', paymentPayload = ''pa'', paymentRequirements = ''ra'', timestamp = 1\<rparr>,
      \<lparr>requestId = ''b'', paymentPayload = ''pb'', paymentRequirements = ''rb'', timestamp = 2\<rparr>]
   = (Returned
        [\<lparr>res_requestId = ''a'', res_success = True, res_transaction = Some ''0x01'',
          res_nonce = Some 7, res_error = None\<rparr>,
         \<lparr>res_requestId = ''b'', res_success = False, res_transaction = None,
          res_nonce = None, res_error = Some ''Verification failed: unknown''\<rparr>],
      Some [(''pa'', ''ra'')]) \<and>
   handler_verify_reason (VerifyJson False (Some ''insufficient_funds'') None)
     = Some ''insufficient_funds''"
  using C4_verify_reason_lost
    [where items =
       "[\<lparr>requestId = ''a'', paymentPayload = ''pa'', paymentRequirements = ''ra'', timestamp = 1\<rparr>,
         \<lparr>requestId = ''b'', paymentPayload = ''pb'', paymentRequirements = ''rb'', timestamp = 2\<rparr>]"
       and verify = "\<lambda>item. if requestId item = ''b''
             then VerifyJson False (Some ''insufficient_funds'') None
             else VerifyJson True None None"
       and settle = "\<lambda>posted. BatchJson
        [\<lparr>fr_index = 0, fr_success = True, fr_transaction = Some ''0x01'', fr_nonce = 7,
          fr_error = None\<rparr>]"
       and results =
        "[\<lparr>fr_index = 0, fr_success = True, fr_transaction = Some ''0x01'', fr_nonce = 7,
          fr_error = None\<rparr>]"
       and i = 1 and why = "''insufficient_funds''"
       and m = "new_manager 2" and st = 500 and errorText = "''''" and msg = "''''"]
  by (simp add: batchSettle_def verify_item_def from_settle_def truthy_def
      verification_failed_def handler_verify_reason_def prod_eq_iff)






end
